theory Spec2Isabelle
  imports Main "HOL-Library.Word"
begin

section \<open>Schema dump and restore of pgcopydb (src/bin/pgcopydb/dump\_restore.c)\<close>

text \<open>
  The four functions of \<^verbatim>\<open>dump_restore.c\<close> are embedded as state-passing functions
  on a \<open>world\<close>: the files on disk (path to content) and the trace of the calls made
  to the external tools and to \<^verbatim>\<open>write_file\<close>. The helpers that the file calls and
  that live elsewhere (\<^verbatim>\<open>pg_dump_db\<close>, \<^verbatim>\<open>pg_restore_db\<close>, \<^verbatim>\<open>pg_restore_list\<close>,
  \<^verbatim>\<open>read_file\<close>, \<^verbatim>\<open>write_file\<close>, \<^verbatim>\<open>splitLines\<close>, the PQExpBuffer allocator) and the
  constants \<^verbatim>\<open>MAXPGPATH\<close> and \<^verbatim>\<open>BUFSIZE\<close> are parameters, collected in the record
  \<open>env\<close>: every theorem holds for each behaviour of them.
\<close>

subsection \<open>Data\<close>

text \<open>\<^verbatim>\<open>specs->cfPaths.done\<close>: the tracking files (phase checkpoints).\<close>

record CopyDoneFilePaths =
  preDataDump :: string
  postDataDump :: string
  preDataRestore :: string
  postDataRestore :: string

text \<open>\<^verbatim>\<open>specs->cfPaths\<close>; the field \<^verbatim>\<open>done\<close> is named \<open>done_paths\<close> here.\<close>

record CopyFilePaths =
  idxdir :: string
  done_paths :: CopyDoneFilePaths

record DumpPaths =
  preFilename :: string
  postFilename :: string
  listFilename :: string

record CopyDataSpec =
  cfPaths :: CopyFilePaths
  dumpPaths :: DumpPaths
  source_pguri :: string
  target_pguri :: string
  restoreOptions :: string

datatype PostgresDumpSection =
    PG_DUMP_SECTION_ALL
  | PG_DUMP_SECTION_SCHEMA
  | PG_DUMP_SECTION_PRE_DATA
  | PG_DUMP_SECTION_POST_DATA

text \<open>
  One entry of the archive's table of contents. The loop prints \<^verbatim>\<open>dumpId\<close> with
  \<^verbatim>\<open>%d\<close> (a signed int) and the two OIDs with \<^verbatim>\<open>%u\<close> (\<^verbatim>\<open>uint32_t\<close>).
\<close>

record ArchiveContentItem =
  dumpId :: "32 word"
  catalogOid :: "32 word"
  objectOid :: "32 word"

text \<open>A call that leaves the process: the arguments and whether it succeeded.\<close>

datatype event =
    PgDump string string string string bool
  | PgRestoreList string bool
  | PgRestore string string "string option" string bool
  | WriteFile string string bool

record world =
  files :: "string \<rightharpoonup> string"
  trace :: "event list"

text \<open>What \<^verbatim>\<open>createPQExpBuffer\<close> can give back: NULL, a broken buffer, an empty buffer.\<close>

datatype alloc = AllocNull | AllocBroken | AllocOk

datatype PQExpBufferData = Broken | Data string

record env =
  MAXPGPATH :: nat
  BUFSIZE :: nat
  read_file_ok :: "world \<Rightarrow> string \<Rightarrow> bool"
  splitLines :: "string option \<Rightarrow> nat \<Rightarrow> string list"
  write_file_ok :: "world \<Rightarrow> string \<Rightarrow> string \<Rightarrow> bool"
  pg_dump_db_result :: "world \<Rightarrow> string \<Rightarrow> string \<Rightarrow> string \<Rightarrow> string \<Rightarrow> string option"
  pg_restore_db_ok :: "world \<Rightarrow> string \<Rightarrow> string \<Rightarrow> string option \<Rightarrow> string \<Rightarrow> bool"
  pg_restore_list_result :: "world \<Rightarrow> string \<Rightarrow> ArchiveContentItem list option"
  createPQExpBuffer_result :: "world \<Rightarrow> alloc"
  enlargePQExpBuffer_ok :: "world \<Rightarrow> nat \<Rightarrow> bool"

text \<open>
  An array read outside the array is undefined behaviour in C. A run that checks its array
  reads ends there with this fault.
\<close>

datatype fault = OutOfBoundsRead int

subsection \<open>Formatting\<close>

definition digit :: "nat \<Rightarrow> char" where
  "digit d = ''0123456789'' ! d"

fun dec :: "nat \<Rightarrow> string" where
  "dec n = (if n < 10 then [digit n] else dec (n div 10) @ [digit (n mod 10)])"

declare dec.simps [simp del]

text \<open>\<^verbatim>\<open>%u\<close> of a \<^verbatim>\<open>uint32_t\<close> and \<^verbatim>\<open>%d\<close> of an \<^verbatim>\<open>int\<close>.\<close>

definition fmt_u :: "32 word \<Rightarrow> string" where
  "fmt_u x = dec (unat x)"

definition fmt_d :: "32 word \<Rightarrow> string" where
  "fmt_d x = (if sint x < 0 then CHR ''-'' # dec (nat (- sint x)) else dec (nat (sint x)))"

text \<open>
  \<^verbatim>\<open>sformat(str, count, fmt, ...)\<close> is \<^verbatim>\<open>snprintf\<close>: the text is cut to
  \<open>count - 1\<close> characters.
\<close>

definition sformat :: "nat \<Rightarrow> string \<Rightarrow> string" where
  "sformat count s = take (count - 1) s"

subsection \<open>Files\<close>

definition file_exists :: "world \<Rightarrow> string \<Rightarrow> bool" where
  "file_exists w path = (files w path \<noteq> None)"

text \<open>
  \<^verbatim>\<open>read_file(path, &sql, &size)\<close>: the content on success; on failure \<^verbatim>\<open>sql\<close>
  keeps its initial value NULL.
\<close>

definition read_file :: "env \<Rightarrow> world \<Rightarrow> string \<Rightarrow> string option" where
  "read_file e w path = (if read_file_ok e w path then files w path else None)"

text \<open>
  \<^verbatim>\<open>write_file(data, size, path)\<close>: on success the file holds the data. The call is
  recorded in the trace with its outcome; a failed call is modelled as leaving the
  files as they were.
\<close>

definition write_file :: "env \<Rightarrow> string \<Rightarrow> string \<Rightarrow> world \<Rightarrow> bool \<times> world" where
  "write_file e content path w =
     (let ok = write_file_ok e w content path in
      (ok, \<lparr>files = (if ok then (files w)(path \<mapsto> content) else files w),
            trace = trace w @ [WriteFile path content ok]\<rparr>))"

subsection \<open>External tools\<close>

text \<open>\<^verbatim>\<open>pg_dump_db\<close>: on success the archive is at the destination path.\<close>

definition pg_dump_db ::
  "env \<Rightarrow> string \<Rightarrow> string \<Rightarrow> string \<Rightarrow> string \<Rightarrow> world \<Rightarrow> bool \<times> world" where
  "pg_dump_db e pguri snapshot section filename w =
     (case pg_dump_db_result e w pguri snapshot section filename of
        None \<Rightarrow>
          (False, \<lparr>files = files w,
                   trace = trace w @ [PgDump pguri snapshot section filename False]\<rparr>)
      | Some archive \<Rightarrow>
          (True, \<lparr>files = (files w)(filename \<mapsto> archive),
                  trace = trace w @ [PgDump pguri snapshot section filename True]\<rparr>))"

definition pg_restore_db ::
  "env \<Rightarrow> string \<Rightarrow> string \<Rightarrow> string option \<Rightarrow> string \<Rightarrow> world \<Rightarrow> bool \<times> world" where
  "pg_restore_db e pguri dumpFilename listFile options w =
     (let ok = pg_restore_db_ok e w pguri dumpFilename listFile options in
      (ok, \<lparr>files = files w,
            trace = trace w @ [PgRestore pguri dumpFilename listFile options ok]\<rparr>))"

definition pg_restore_list ::
  "env \<Rightarrow> string \<Rightarrow> world \<Rightarrow> ArchiveContentItem list option \<times> world" where
  "pg_restore_list e filename w =
     (let r = pg_restore_list_result e w filename in
      (r, \<lparr>files = files w, trace = trace w @ [PgRestoreList filename (r \<noteq> None)]\<rparr>))"

subsection \<open>PQExpBuffer\<close>

definition createPQExpBuffer :: "env \<Rightarrow> world \<Rightarrow> PQExpBufferData option" where
  "createPQExpBuffer e w =
     (case createPQExpBuffer_result e w of
        AllocNull \<Rightarrow> None
      | AllocBroken \<Rightarrow> Some Broken
      | AllocOk \<Rightarrow> Some (Data []))"

text \<open>Appending to a broken buffer does nothing; an append that cannot grow the buffer breaks it.\<close>

definition appendPQExpBuffer :: "env \<Rightarrow> world \<Rightarrow> PQExpBufferData \<Rightarrow> string \<Rightarrow> PQExpBufferData" where
  "appendPQExpBuffer e w buf s =
     (case buf of
        Broken \<Rightarrow> Broken
      | Data d \<Rightarrow>
          if enlargePQExpBuffer_ok e w (length d + length s) then Data (d @ s) else Broken)"

definition PQExpBufferBroken :: "PQExpBufferData \<Rightarrow> bool" where
  "PQExpBufferBroken buf = (case buf of Broken \<Rightarrow> True | Data _ \<Rightarrow> False)"

definition buffer_data :: "PQExpBufferData \<Rightarrow> string" where
  "buffer_data buf = (case buf of Broken \<Rightarrow> [] | Data d \<Rightarrow> d)"

subsection \<open>copydb\_objectid\_has\_been\_processed\_already\<close>

definition array_read :: "'a list \<Rightarrow> int \<Rightarrow> fault + 'a" where
  "array_read xs i =
     (if 0 \<le> i \<and> i < int (length xs) then Inr (xs ! nat i) else Inl (OutOfBoundsRead i))"

text \<open>\<^verbatim>\<open>sformat(doneFile, sizeof(doneFile), "%s/%u.done", specs->cfPaths.idxdir, oid)\<close>\<close>

definition doneFile :: "env \<Rightarrow> CopyDataSpec \<Rightarrow> 32 word \<Rightarrow> string" where
  "doneFile e specs oid =
     sformat (MAXPGPATH e) (idxdir (cfPaths specs) @ ''/'' @ fmt_u oid @ ''.done'')"

text \<open>
  \<^verbatim>\<open>char *lines[BUFSIZE] = { 0 }\<close> after \<^verbatim>\<open>splitLines(sql, lines, BUFSIZE)\<close>: the
  lines found, then NULL pointers, \<open>BUFSIZE\<close> cells in all.
\<close>

definition lines_array :: "env \<Rightarrow> string list \<Rightarrow> string option list" where
  "lines_array e found = take (BUFSIZE e) (map Some found @ replicate (BUFSIZE e) None)"

text \<open>
  The function with its array read checked: the read of \<^verbatim>\<open>lines[lineCount - 1]\<close> at
  line 53 ends the run with a fault when the index is outside the array.
\<close>

definition copydb_objectid_has_been_processed_already ::
  "env \<Rightarrow> CopyDataSpec \<Rightarrow> world \<Rightarrow> 32 word \<Rightarrow> fault + bool" where
  "copydb_objectid_has_been_processed_already e specs w oid =
     (if file_exists w (doneFile e specs oid) then
        (let sql = read_file e w (doneFile e specs oid);
             found = splitLines e sql (BUFSIZE e);
             lineCount = int (length found)
         in case array_read (lines_array e found) (lineCount - 1) of
              Inl f \<Rightarrow> Inl f
            | Inr last_line \<Rightarrow> Inr True)
      else Inr False)"

text \<open>
  What the call returns. The element read at line 53 is only an argument of
  \<^verbatim>\<open>log_debug\<close>; whatever the read gives, lines 56 to 58 follow
  (\<^verbatim>\<open>free(sql); return true;\<close>). So the call returns true also where the checked
  read is out of bounds.
\<close>

definition copydb_objectid_has_been_processed_already_returns ::
  "env \<Rightarrow> CopyDataSpec \<Rightarrow> world \<Rightarrow> 32 word \<Rightarrow> bool" where
  "copydb_objectid_has_been_processed_already_returns e specs w oid =
     (case copydb_objectid_has_been_processed_already e specs w oid of
        Inl logged_out_of_bounds \<Rightarrow> True
      | Inr processed \<Rightarrow> processed)"

subsection \<open>copydb\_dump\_source\_schema\<close>

text \<open>The first block of the function (lines 74 to 101): the pre-data section.\<close>

definition dump_pre_data :: "env \<Rightarrow> CopyDataSpec \<Rightarrow> string \<Rightarrow> world \<Rightarrow> bool \<times> world" where
  "dump_pre_data e specs snapshot w =
     (case (if file_exists w (preDataDump (done_paths (cfPaths specs))) then (True, w)
            else pg_dump_db e (source_pguri specs) snapshot ''pre-data''
                   (preFilename (dumpPaths specs)) w) of
        (False, w1) \<Rightarrow> (False, w1)
      | (True, w1) \<Rightarrow> write_file e [] (preDataDump (done_paths (cfPaths specs))) w1)"

text \<open>The second block (lines 103 to 130): the post-data section.\<close>

definition dump_post_data :: "env \<Rightarrow> CopyDataSpec \<Rightarrow> string \<Rightarrow> world \<Rightarrow> bool \<times> world" where
  "dump_post_data e specs snapshot w =
     (case (if file_exists w (postDataDump (done_paths (cfPaths specs))) then (True, w)
            else pg_dump_db e (source_pguri specs) snapshot ''post-data''
                   (postFilename (dumpPaths specs)) w) of
        (False, w1) \<Rightarrow> (False, w1)
      | (True, w1) \<Rightarrow> write_file e [] (postDataDump (done_paths (cfPaths specs))) w1)"

definition copydb_dump_source_schema ::
  "env \<Rightarrow> CopyDataSpec \<Rightarrow> string \<Rightarrow> PostgresDumpSection \<Rightarrow> world \<Rightarrow> bool \<times> world" where
  "copydb_dump_source_schema e specs snapshot section w =
     (case (if section = PG_DUMP_SECTION_SCHEMA \<or> section = PG_DUMP_SECTION_PRE_DATA \<or>
               section = PG_DUMP_SECTION_ALL
            then dump_pre_data e specs snapshot w else (True, w)) of
        (False, w1) \<Rightarrow> (False, w1)
      | (True, w1) \<Rightarrow>
          (case (if section = PG_DUMP_SECTION_SCHEMA \<or> section = PG_DUMP_SECTION_POST_DATA \<or>
                    section = PG_DUMP_SECTION_ALL
                 then dump_post_data e specs snapshot w1 else (True, w1)) of
             (False, w2) \<Rightarrow> (False, w2)
           | (True, w2) \<Rightarrow> (True, w2)))"

subsection \<open>copydb\_target\_prepare\_schema\<close>

definition copydb_target_prepare_schema :: "env \<Rightarrow> CopyDataSpec \<Rightarrow> world \<Rightarrow> bool \<times> world" where
  "copydb_target_prepare_schema e specs w =
     (if \<not> file_exists w (preFilename (dumpPaths specs)) then (False, w)
      else if file_exists w (preDataRestore (done_paths (cfPaths specs))) then (True, w)
      else
        (case pg_restore_db e (target_pguri specs) (preFilename (dumpPaths specs)) None
                (restoreOptions specs) w of
           (False, w1) \<Rightarrow> (False, w1)
         | (True, w1) \<Rightarrow> write_file e [] (preDataRestore (done_paths (cfPaths specs))) w1))"

subsection \<open>copydb\_target\_finalize\_schema\<close>

text \<open>The text that one iteration of the loop appends (\<^verbatim>\<open>"%s%d; %u %u\n"\<close>).\<close>

definition list_line :: "bool \<Rightarrow> ArchiveContentItem \<Rightarrow> string" where
  "list_line processed item =
     (if processed then '';'' else '''') @ fmt_d (dumpId item) @ ''; '' @
     fmt_u (catalogOid item) @ '' '' @ fmt_u (objectOid item) @ [CHR ''\<newline>'']"

text \<open>
  The loop \<^verbatim>\<open>for (int i = 0; i < contents.count; i++)\<close>, from index \<open>i\<close> on. The
  prefix of a line depends on what the lookup of the entry's OID returns.
\<close>

function finalize_loop ::
  "env \<Rightarrow> CopyDataSpec \<Rightarrow> world \<Rightarrow> ArchiveContentItem list \<Rightarrow> nat \<Rightarrow> PQExpBufferData
   \<Rightarrow> PQExpBufferData" where
  "finalize_loop e specs w contents i listContents =
     (if i < length contents then
        finalize_loop e specs w contents (i + 1)
          (appendPQExpBuffer e w listContents
             (list_line
                (copydb_objectid_has_been_processed_already_returns e specs w
                   (objectOid (contents ! i)))
                (contents ! i)))
      else listContents)"
  by pat_completeness auto
termination
  by (relation "measure (\<lambda>(e, specs, w, contents, i, listContents). length contents - i)") auto

declare finalize_loop.simps [simp del]

definition copydb_target_finalize_schema ::
  "env \<Rightarrow> CopyDataSpec \<Rightarrow> world \<Rightarrow> bool \<times> world" where
  "copydb_target_finalize_schema e specs w =
     (if \<not> file_exists w (postFilename (dumpPaths specs)) then (False, w)
      else if file_exists w (postDataRestore (done_paths (cfPaths specs))) then (True, w)
      else
        (case pg_restore_list e (postFilename (dumpPaths specs)) w of
           (None, w1) \<Rightarrow> (False, w1)
         | (Some contents, w1) \<Rightarrow>
             (case createPQExpBuffer e w1 of
                None \<Rightarrow> (False, w1)
              | Some fresh \<Rightarrow>
                  (let listContents = finalize_loop e specs w1 contents 0 fresh in
                   if PQExpBufferBroken listContents then (False, w1)
                   else
                     (case write_file e (buffer_data listContents)
                             (listFilename (dumpPaths specs)) w1 of
                        (False, w2) \<Rightarrow> (False, w2)
                      | (True, w2) \<Rightarrow>
                          (case pg_restore_db e (target_pguri specs)
                                  (postFilename (dumpPaths specs))
                                  (Some (listFilename (dumpPaths specs)))
                                  (restoreOptions specs) w2 of
                             (False, w3) \<Rightarrow> (False, w3)
                           | (True, w3) \<Rightarrow>
                               write_file e []
                                 (postDataRestore (done_paths (cfPaths specs))) w3))))))"

subsection \<open>Vocabulary of the statements\<close>

text \<open>The calls a run added to the trace, and whether a recorded call succeeded.\<close>

definition new_events :: "world \<Rightarrow> world \<Rightarrow> event list" where
  "new_events w w' = drop (length (trace w)) (trace w')"

fun event_ok :: "event \<Rightarrow> bool" where
  "event_ok (PgDump pguri snapshot label filename ok) = ok"
| "event_ok (PgRestoreList filename ok) = ok"
| "event_ok (PgRestore pguri dumpFilename listFile options ok) = ok"
| "event_ok (WriteFile path content ok) = ok"


definition is_restore :: "event \<Rightarrow> bool" where
  "is_restore ev =
     (case ev of PgRestore pguri dumpFilename listFile options ok \<Rightarrow> True | _ \<Rightarrow> False)"



text \<open>
  The calls of the pre-data sub-section: the dump labelled \<^verbatim>\<open>pre-data\<close> into the pre-data
  archive, and the write of the empty pre-data tracking file. Likewise for post-data.
\<close>

definition pre_data_event :: "CopyDataSpec \<Rightarrow> event \<Rightarrow> bool" where
  "pre_data_event specs ev =
     (case ev of
        PgDump pguri snapshot label filename ok \<Rightarrow>
          label = ''pre-data'' \<and> filename = preFilename (dumpPaths specs)
      | WriteFile path content ok \<Rightarrow>
          path = preDataDump (done_paths (cfPaths specs)) \<and> content = []
      | _ \<Rightarrow> False)"

definition post_data_event :: "CopyDataSpec \<Rightarrow> event \<Rightarrow> bool" where
  "post_data_event specs ev =
     (case ev of
        PgDump pguri snapshot label filename ok \<Rightarrow>
          label = ''post-data'' \<and> filename = postFilename (dumpPaths specs)
      | WriteFile path content ok \<Rightarrow>
          path = postDataDump (done_paths (cfPaths specs)) \<and> content = []
      | _ \<Rightarrow> False)"

text \<open>The world once \<^verbatim>\<open>pg_restore_list\<close> has listed the post-data archive.\<close>

definition listed :: "CopyDataSpec \<Rightarrow> world \<Rightarrow> world" where
  "listed specs w =
     \<lparr>files = files w, trace = trace w @ [PgRestoreList (postFilename (dumpPaths specs)) True]\<rparr>"

subsection \<open>The list file as the specification describes it\<close>

text \<open>
  A line of the filtered manifest is \<^verbatim>\<open><prefix><dumpId>; <catalogOid> <objectOid>\<close>, the
  prefix being empty or the comment marker \<^verbatim>\<open>;\<close>; each line is followed by a newline,
  one line per entry, in the order of the entries.
\<close>

definition show_int :: "int \<Rightarrow> string" where
  "show_int i = (if i < 0 then CHR ''-'' # dec (nat (- i)) else dec (nat i))"

definition manifest_line :: "bool \<Rightarrow> int \<Rightarrow> nat \<Rightarrow> nat \<Rightarrow> string" where
  "manifest_line inactive dump_id catalog_oid object_oid =
     (if inactive then '';'' else '''') @ show_int dump_id @ ''; '' @ dec catalog_oid @ '' '' @
     dec object_oid"

definition manifest_lines ::
  "env \<Rightarrow> CopyDataSpec \<Rightarrow> world \<Rightarrow> ArchiveContentItem list \<Rightarrow> string list" where
  "manifest_lines e specs w contents =
     map (\<lambda>item. manifest_line (file_exists w (doneFile e specs (objectOid item)))
            (sint (dumpId item)) (unat (catalogOid item)) (unat (objectOid item))) contents"

definition manifest_text ::
  "env \<Rightarrow> CopyDataSpec \<Rightarrow> world \<Rightarrow> ArchiveContentItem list \<Rightarrow> string" where
  "manifest_text e specs w contents =
     concat (map (\<lambda>l. l @ [CHR ''\<newline>'']) (manifest_lines e specs w contents))"

text \<open>The buffer after the lines of the given entries were appended, one append per entry.\<close>

primrec append_lines ::
  "env \<Rightarrow> CopyDataSpec \<Rightarrow> world \<Rightarrow> PQExpBufferData \<Rightarrow> ArchiveContentItem list
   \<Rightarrow> PQExpBufferData" where
  "append_lines e specs w buf [] = buf"
| "append_lines e specs w buf (item # items) =
     append_lines e specs w
       (appendPQExpBuffer e w buf
          (list_line (file_exists w (doneFile e specs (objectOid item))) item)) items"

text \<open>Every growth of the buffer succeeds while the lines of the entries are appended.\<close>

definition appends_ok :: "env \<Rightarrow> CopyDataSpec \<Rightarrow> world \<Rightarrow> ArchiveContentItem list \<Rightarrow> bool" where
  "appends_ok e specs w contents =
     (\<forall>k < length contents.
        enlargePQExpBuffer_ok e w (length (manifest_text e specs w (take (Suc k) contents))))"

text \<open>What \<^verbatim>\<open>copydb_target_finalize_schema\<close> does once the complete list is in the buffer:
  it writes the list file, restores with it, and writes the tracking file.\<close>

definition restore_with_list ::
  "env \<Rightarrow> CopyDataSpec \<Rightarrow> world \<Rightarrow> ArchiveContentItem list \<Rightarrow> bool \<times> world" where
  "restore_with_list e specs w contents =
     (case write_file e (manifest_text e specs w contents)
             (listFilename (dumpPaths specs)) (listed specs w) of
        (False, w2) \<Rightarrow> (False, w2)
      | (True, w2) \<Rightarrow>
          (case pg_restore_db e (target_pguri specs) (postFilename (dumpPaths specs))
                  (Some (listFilename (dumpPaths specs))) (restoreOptions specs) w2 of
             (False, w3) \<Rightarrow> (False, w3)
           | (True, w3) \<Rightarrow>
               write_file e [] (postDataRestore (done_paths (cfPaths specs))) w3))"

subsection \<open>Reading a list file back\<close>

text \<open>The lines of a text: cut at each newline; a last line without newline counts.\<close>

primrec split_lines_acc :: "string \<Rightarrow> string \<Rightarrow> string list" where
  "split_lines_acc cur [] = (if cur = [] then [] else [cur])"
| "split_lines_acc cur (c # cs) =
     (if c = CHR ''\<newline>'' then cur # split_lines_acc [] cs
      else split_lines_acc (cur @ [c]) cs)"

definition text_lines :: "string \<Rightarrow> string list" where
  "text_lines s = split_lines_acc [] s"

definition digit_value :: "char \<Rightarrow> nat" where
  "digit_value c = of_char c - of_char CHR ''0''"

definition read_nat :: "string \<Rightarrow> nat" where
  "read_nat s = foldl (\<lambda>a c. 10 * a + digit_value c) 0 s"

definition read_int :: "string \<Rightarrow> int" where
  "read_int s =
     (case s of
        [] \<Rightarrow> 0
      | c # cs \<Rightarrow> if c = CHR ''-'' then - int (read_nat cs) else int (read_nat s))"

text \<open>A line of the list file read back: whether it is commented out, and its three numbers.\<close>

definition parse_manifest_line :: "string \<Rightarrow> bool \<times> int \<times> nat \<times> nat" where
  "parse_manifest_line l =
     (let inactive = (l \<noteq> [] \<and> hd l = CHR '';'');
          body = (if inactive then tl l else l);
          dump_id = takeWhile (\<lambda>c. c \<noteq> CHR '';'') body;
          oids = drop 2 (dropWhile (\<lambda>c. c \<noteq> CHR '';'') body);
          catalog_oid = takeWhile (\<lambda>c. c \<noteq> CHR '' '') oids;
          object_oid = drop 1 (dropWhile (\<lambda>c. c \<noteq> CHR '' '') oids)
      in (inactive, read_int dump_id, read_nat catalog_oid, read_nat object_oid))"

definition entry_of_line :: "string \<Rightarrow> ArchiveContentItem" where
  "entry_of_line l =
     (case parse_manifest_line l of
        (inactive, dump_id, catalog_oid, object_oid) \<Rightarrow>
          \<lparr>dumpId = word_of_int dump_id, catalogOid = word_of_nat catalog_oid,
           objectOid = word_of_nat object_oid\<rparr>)"

subsection \<open>Concrete environments and worlds\<close>

text \<open>
  For evaluating the functions on concrete inputs. In \<open>env0\<close> every call succeeds, the
  archive lists no entry, and \<^verbatim>\<open>splitLines\<close> cuts its buffer at the newline characters,
  keeps at most \<open>n\<close> lines, and finds no line in an absent or empty buffer.
\<close>

definition splitLines_std :: "string option \<Rightarrow> nat \<Rightarrow> string list" where
  "splitLines_std buffer n =
     (case buffer of None \<Rightarrow> [] | Some s \<Rightarrow> take n (text_lines s))"

definition env0 :: env where
  "env0 = \<lparr>MAXPGPATH = 1024, BUFSIZE = 1024,
            read_file_ok = (\<lambda>w path. True),
            splitLines = splitLines_std,
            write_file_ok = (\<lambda>w content path. True),
            pg_dump_db_result = (\<lambda>w pguri snapshot label filename. Some ''archive''),
            pg_restore_db_ok = (\<lambda>w pguri dumpFilename listFile options. True),
            pg_restore_list_result = (\<lambda>w filename. Some []),
            createPQExpBuffer_result = (\<lambda>w. AllocOk),
            enlargePQExpBuffer_ok = (\<lambda>w n. True)\<rparr>"

text \<open>Every \<^verbatim>\<open>write_file\<close> fails.\<close>

definition env_write_fails :: env where
  "env_write_fails = env0\<lparr>write_file_ok := \<lambda>w content path. False\<rparr>"

text \<open>Every \<^verbatim>\<open>pg_dump\<close> and every \<^verbatim>\<open>pg_restore\<close> fails.\<close>

definition env_tools_fail :: env where
  "env_tools_fail =
     env0\<lparr>pg_dump_db_result := \<lambda>w pguri snapshot label filename. None,
          pg_restore_db_ok := \<lambda>w pguri dumpFilename listFile options. False\<rparr>"

text \<open>The archive lists the entries (1, 2608, 100) and (2, 2608, 101).\<close>

definition two_entries :: "ArchiveContentItem list" where
  "two_entries = [\<lparr>dumpId = 1, catalogOid = 2608, objectOid = 100\<rparr>,
                  \<lparr>dumpId = 2, catalogOid = 2608, objectOid = 101\<rparr>]"

definition env_two_entries :: env where
  "env_two_entries = env0\<lparr>pg_restore_list_result := \<lambda>w filename. Some two_entries\<rparr>"

text \<open>As \<open>env_two_entries\<close>, but the buffer cannot grow beyond 20 characters.\<close>

definition env_small_buffer :: env where
  "env_small_buffer = env_two_entries\<lparr>enlargePQExpBuffer_ok := \<lambda>w n. n \<le> 20\<rparr>"

text \<open>As \<open>env_two_entries\<close>, but every \<^verbatim>\<open>write_file\<close> fails.\<close>

definition env_list_write_fails :: env where
  "env_list_write_fails = env_two_entries\<lparr>write_file_ok := \<lambda>w content path. False\<rparr>"

definition specs0 :: CopyDataSpec where
  "specs0 = \<lparr>cfPaths = \<lparr>idxdir = ''idx'',
                done_paths = \<lparr>preDataDump = ''pre.done'', postDataDump = ''post.done'',
                  preDataRestore = ''rpre.done'', postDataRestore = ''rpost.done''\<rparr>\<rparr>,
              dumpPaths = \<lparr>preFilename = ''pre.dump'', postFilename = ''post.dump'',
                listFilename = ''post.list''\<rparr>,
              source_pguri = ''source'', target_pguri = ''target'', restoreOptions = ''''\<rparr>"

text \<open>A world with the given files and an empty trace.\<close>

definition on_disk :: "(string \<times> string) list \<Rightarrow> world" where
  "on_disk fs = \<lparr>files = map_of fs, trace = []\<rparr>"

definition disk_all_done :: world where
  "disk_all_done = on_disk [(''pre.dump'', ''archive''), (''post.dump'', ''archive''),
     (''pre.done'', ''''), (''post.done'', ''''), (''rpre.done'', ''''), (''rpost.done'', '''')]"

definition disk_dumps_only :: world where
  "disk_dumps_only = on_disk [(''pre.dump'', ''archive''), (''post.dump'', ''archive'')]"

text \<open>
  The post-data archive, and the marker of OID 100: an empty file, as
  \<^verbatim>\<open>write_file("", 0, ...)\<close> makes the tracking files.
\<close>

definition disk_index_100_built :: world where
  "disk_index_100_built = on_disk [(''post.dump'', ''archive''), (''idx/100.done'', '''')]"

section \<open>Properties\<close>

subsection \<open>Formatting and reading back\<close>

lemma digit_cases: "d < 10 \<Longrightarrow> digit d \<in> set ''0123456789'' \<and> digit_value (digit d) = d"
proof -
  assume "d < 10"
  then have "d \<in> {0, 1, 2, 3, 4, 5, 6, 7, 8, 9}" by auto
  then show ?thesis
    by (auto simp add: digit_def digit_value_def)
qed

lemma dec_digits: "c \<in> set (dec n) \<Longrightarrow> c \<in> set ''0123456789''"
proof (induction n rule: dec.induct)
  case (1 n)
  show ?case
  proof (cases "n < 10")
    case True
    with "1.prems" digit_cases [of n] show ?thesis by (simp add: dec.simps [of n])
  next
    case False
    with "1.prems" "1.IH" digit_cases [of "n mod 10"] show ?thesis
      by (auto simp add: dec.simps [of n])
  qed
qed

lemma dec_not_Nil: "dec n \<noteq> []"
  by (subst dec.simps) simp

lemma read_nat_dec: "read_nat (dec n) = n"
proof (induction n rule: dec.induct)
  case (1 n)
  show ?case
  proof (cases "n < 10")
    case True
    with digit_cases [of n] show ?thesis by (simp add: dec.simps [of n] read_nat_def)
  next
    case False
    with "1.IH" digit_cases [of "n mod 10"] show ?thesis
      by (simp add: dec.simps [of n] read_nat_def)
  qed
qed

lemma dec_hd: "\<exists>c cs. dec n = c # cs \<and> c \<in> set ''0123456789''"
  using dec_not_Nil [of n] dec_digits [of _ n] by (cases "dec n") auto

lemma read_int_show_int: "read_int (show_int i) = i"
proof (cases "i < 0")
  case True
  then show ?thesis by (simp add: show_int_def read_int_def read_nat_dec)
next
  case False
  obtain c cs where d: "dec (nat i) = c # cs" "c \<in> set ''0123456789''"
    using dec_hd by blast
  then have "c \<noteq> CHR ''-''" by auto
  with False d read_nat_dec [of "nat i"] show ?thesis
    by (simp add: show_int_def read_int_def)
qed

lemma show_int_chars: "c \<in> set (show_int i) \<Longrightarrow> c \<in> set ''-0123456789''"
  by (auto simp add: show_int_def dest: dec_digits split: if_splits)

lemma show_int_hd: "\<exists>c cs. show_int i = c # cs \<and> c \<noteq> CHR '';''"
  using dec_hd [of "nat i"] by (auto simp add: show_int_def)

lemma parse_manifest_line_inverse:
  "parse_manifest_line (manifest_line inactive dump_id catalog_oid object_oid) =
     (inactive, dump_id, catalog_oid, object_oid)"
proof -
  obtain c cs where hd: "show_int dump_id = c # cs" "c \<noteq> CHR '';''"
    using show_int_hd by blast
  have d: "\<And>x. x \<in> set (show_int dump_id) \<Longrightarrow> x \<noteq> CHR '';''"
    by (auto dest: show_int_chars)
  have c: "\<And>x. x \<in> set (dec catalog_oid) \<Longrightarrow> x \<noteq> CHR '' ''"
    by (auto dest: dec_digits)
  have body: "(if inactive then tl (manifest_line inactive dump_id catalog_oid object_oid)
      else manifest_line inactive dump_id catalog_oid object_oid) =
      show_int dump_id @ ''; '' @ dec catalog_oid @ '' '' @ dec object_oid"
    by (simp add: manifest_line_def)
  have flag: "(manifest_line inactive dump_id catalog_oid object_oid \<noteq> [] \<and>
      hd (manifest_line inactive dump_id catalog_oid object_oid) = CHR '';'') = inactive"
    using hd by (simp add: manifest_line_def)
  show ?thesis
    unfolding parse_manifest_line_def Let_def flag body
    using d c by (simp add: read_int_show_int read_nat_dec)
qed

lemma manifest_line_no_newline:
  "CHR ''\<newline>'' \<notin> set (manifest_line inactive dump_id catalog_oid object_oid)"
  by (auto simp add: manifest_line_def dest: dec_digits show_int_chars)

lemma split_lines_acc_line:
  "CHR ''\<newline>'' \<notin> set l \<Longrightarrow>
   split_lines_acc cur (l @ CHR ''\<newline>'' # rest) = (cur @ l) # split_lines_acc [] rest"
  by (induction l arbitrary: cur) auto

lemma text_lines_terminated:
  "\<forall>l \<in> set ls. CHR ''\<newline>'' \<notin> set l \<Longrightarrow>
   text_lines (concat (map (\<lambda>l. l @ [CHR ''\<newline>'']) ls)) = ls"
  unfolding text_lines_def
  by (induction ls) (simp_all add: split_lines_acc_line)

lemma text_lines_manifest:
  "text_lines (manifest_text e specs w contents) = manifest_lines e specs w contents"
  unfolding manifest_text_def
  by (rule text_lines_terminated) (auto simp add: manifest_lines_def manifest_line_no_newline)

lemma entries_of_manifest:
  "map entry_of_line (manifest_lines e specs w contents) = contents"
  by (induction contents)
     (simp_all add: manifest_lines_def entry_of_line_def parse_manifest_line_inverse)

lemma flags_of_manifest:
  "map (\<lambda>l. fst (parse_manifest_line l)) (manifest_lines e specs w contents) =
   map (\<lambda>item. file_exists w (doneFile e specs (objectOid item))) contents"
  by (simp add: manifest_lines_def parse_manifest_line_inverse comp_def)

lemma list_line_manifest_line:
  "list_line processed item =
     manifest_line processed (sint (dumpId item)) (unat (catalogOid item)) (unat (objectOid item))
     @ [CHR ''\<newline>'']"
  by (simp add: list_line_def manifest_line_def fmt_d_def fmt_u_def show_int_def)

lemma manifest_text_Nil [simp]: "manifest_text e specs w [] = []"
  by (simp add: manifest_text_def manifest_lines_def)

lemma manifest_text_Cons:
  "manifest_text e specs w (item # items) =
     list_line (file_exists w (doneFile e specs (objectOid item))) item @
     manifest_text e specs w items"
  by (simp add: manifest_text_def manifest_lines_def list_line_manifest_line)

subsection \<open>The lookup of an object's marker\<close>

lemma lines_array_length: "length (lines_array e found) = BUFSIZE e"
  by (simp add: lines_array_def)

text \<open>Whenever the checked run returns, it returns whether the marker file exists.\<close>

lemma processed_already_returns_exists:
  "copydb_objectid_has_been_processed_already e specs w oid = Inr b \<Longrightarrow>
   b = file_exists w (doneFile e specs oid)"
  by (auto simp add: copydb_objectid_has_been_processed_already_def Let_def
      split: if_splits sum.splits)

text \<open>A fault of the checked run comes from an existing marker file.\<close>

lemma processed_already_fault_exists:
  "copydb_objectid_has_been_processed_already e specs w oid = Inl f \<Longrightarrow>
   file_exists w (doneFile e specs oid)"
  by (auto simp add: copydb_objectid_has_been_processed_already_def Let_def
      split: if_splits sum.splits)

lemma lookup_returns:
  "copydb_objectid_has_been_processed_already_returns e specs w oid =
     file_exists w (doneFile e specs oid)"
proof (cases "copydb_objectid_has_been_processed_already e specs w oid")
  case (Inl f)
  with processed_already_fault_exists [OF Inl] show ?thesis
    by (simp add: copydb_objectid_has_been_processed_already_returns_def)
next
  case (Inr b)
  with processed_already_returns_exists [OF Inr] show ?thesis
    by (simp add: copydb_objectid_has_been_processed_already_returns_def)
qed

subsection \<open>The loop that builds the list\<close>

lemma finalize_loop_result:
  "finalize_loop e specs w contents i buf = append_lines e specs w buf (drop i contents)"
proof (induction e specs w contents i buf rule: finalize_loop.induct)
  case (1 e specs w contents i listContents)
  show ?case
  proof (cases "i < length contents")
    case False
    then show ?thesis by (simp add: finalize_loop.simps)
  next
    case True
    have "finalize_loop e specs w contents i listContents =
        finalize_loop e specs w contents (i + 1)
          (appendPQExpBuffer e w listContents
             (list_line
                (copydb_objectid_has_been_processed_already_returns e specs w
                   (objectOid (contents ! i)))
                (contents ! i)))"
      using True by (subst finalize_loop.simps) simp
    also have "\<dots> = append_lines e specs w
        (appendPQExpBuffer e w listContents
           (list_line
              (copydb_objectid_has_been_processed_already_returns e specs w
                 (objectOid (contents ! i)))
              (contents ! i)))
        (drop (i + 1) contents)"
      using "1.IH" [OF True] .
    also have "\<dots> = append_lines e specs w listContents (drop i contents)"
      using True by (simp add: Cons_nth_drop_Suc [symmetric] lookup_returns)
    finally show ?thesis .
  qed
qed

lemma append_lines_Broken [simp]: "append_lines e specs w Broken items = Broken"
  by (induction items) (simp_all add: appendPQExpBuffer_def)

lemma append_lines_Data:
  "append_lines e specs w (Data d) items =
     (if \<forall>k < length items.
           enlargePQExpBuffer_ok e w (length d + length (manifest_text e specs w (take (Suc k) items)))
      then Data (d @ manifest_text e specs w items) else Broken)"
proof (induction items arbitrary: d)
  case Nil
  show ?case by simp
next
  case (Cons item items)
  show ?case
    by (simp add: appendPQExpBuffer_def Cons.IH manifest_text_Cons All_less_Suc2 add.assoc)
qed

lemma append_lines_fresh:
  "append_lines e specs w (Data []) contents =
     (if appends_ok e specs w contents then Data (manifest_text e specs w contents) else Broken)"
  by (simp add: append_lines_Data appends_ok_def)

text \<open>What the loop leaves in the buffer that \<^verbatim>\<open>createPQExpBuffer\<close> returned.\<close>

lemma built_list:
  assumes "createPQExpBuffer e w = Some fresh"
  shows "finalize_loop e specs w contents 0 fresh =
     (if createPQExpBuffer_result e w = AllocOk \<and> appends_ok e specs w contents
      then Data (manifest_text e specs w contents) else Broken)"
  using assms
  by (auto simp add: finalize_loop_result createPQExpBuffer_def append_lines_fresh
      split: alloc.splits)

subsection \<open>copydb\_target\_finalize\_schema, once the archive is listed\<close>

lemma file_exists_listed [simp]: "file_exists (listed specs w) path = file_exists w path"
  by (simp add: file_exists_def listed_def)

lemma manifest_text_listed [simp]:
  "manifest_text e specs (listed specs' w) contents = manifest_text e specs w contents"
  by (simp add: manifest_text_def manifest_lines_def)

lemma pg_restore_list_listed:
  "pg_restore_list_result e w (postFilename (dumpPaths specs)) = Some contents \<Longrightarrow>
   pg_restore_list e (postFilename (dumpPaths specs)) w = (Some contents, listed specs w)"
  by (simp add: pg_restore_list_def listed_def)

text \<open>
  After the listing the call stops with an error when the buffer is NULL or broken, and
  goes on with the complete list otherwise.
\<close>

lemma finalize_cases:
  assumes "file_exists w (postFilename (dumpPaths specs))"
    and "\<not> file_exists w (postDataRestore (done_paths (cfPaths specs)))"
    and "pg_restore_list_result e w (postFilename (dumpPaths specs)) = Some contents"
  shows "copydb_target_finalize_schema e specs w =
     (if createPQExpBuffer_result e (listed specs w) = AllocOk \<and>
         appends_ok e specs (listed specs w) contents
      then restore_with_list e specs w contents
      else (False, listed specs w))"
proof (cases "createPQExpBuffer e (listed specs w)")
  case None
  then have "createPQExpBuffer_result e (listed specs w) \<noteq> AllocOk"
    by (auto simp add: createPQExpBuffer_def split: alloc.splits)
  with None assms(1,2) show ?thesis
    by (simp add: copydb_target_finalize_schema_def pg_restore_list_listed [OF assms(3)])
next
  case (Some fresh)
  from assms(1,2) show ?thesis
    by (simp add: copydb_target_finalize_schema_def pg_restore_list_listed [OF assms(3)] Some
        built_list [OF Some] Let_def PQExpBufferBroken_def buffer_data_def
        restore_with_list_def)
qed

lemma restore_with_list_events:
  assumes "restore_with_list e specs w contents = (r, w')"
  shows "\<exists>evs.
     new_events w w' =
       PgRestoreList (postFilename (dumpPaths specs)) True #
       WriteFile (listFilename (dumpPaths specs)) (manifest_text e specs w contents)
         (write_file_ok e (listed specs w) (manifest_text e specs w contents)
            (listFilename (dumpPaths specs))) # evs \<and>
     (\<forall>c ok. WriteFile (listFilename (dumpPaths specs)) c ok \<in> set evs \<longrightarrow>
        listFilename (dumpPaths specs) = postDataRestore (done_paths (cfPaths specs))) \<and>
     ((\<exists>ev \<in> set evs. is_restore ev) \<longrightarrow>
        write_file_ok e (listed specs w) (manifest_text e specs w contents)
          (listFilename (dumpPaths specs)))"
  using assms
  by (auto simp add: restore_with_list_def write_file_def pg_restore_db_def Let_def
      new_events_def listed_def is_restore_def split: prod.splits bool.splits)

text \<open>Only the complete list is ever written to the list file.\<close>

lemma finalize_writes_complete_list:
  assumes "file_exists w (postFilename (dumpPaths specs))"
    and "\<not> file_exists w (postDataRestore (done_paths (cfPaths specs)))"
    and "pg_restore_list_result e w (postFilename (dumpPaths specs)) = Some contents"
    and run: "copydb_target_finalize_schema e specs w = (r, w')"
    and distinct: "listFilename (dumpPaths specs) \<noteq> postDataRestore (done_paths (cfPaths specs))"
    and ev: "WriteFile (listFilename (dumpPaths specs)) c ok \<in> set (new_events w w')"
  shows "c = manifest_text e specs w contents"
proof (cases "createPQExpBuffer_result e (listed specs w) = AllocOk \<and>
    appends_ok e specs (listed specs w) contents")
  case False
  with run have "w' = listed specs w"
    by (simp add: finalize_cases [OF assms(1-3)])
  with ev show ?thesis by (simp add: new_events_def listed_def)
next
  case True
  with run have "restore_with_list e specs w contents = (r, w')"
    by (simp add: finalize_cases [OF assms(1-3)])
  from restore_with_list_events [OF this] ev distinct show ?thesis by auto
qed

text \<open>With the buffer allocated and grown, the list file is written right after the listing.\<close>

lemma finalize_writes_list:
  assumes "file_exists w (postFilename (dumpPaths specs))"
    and "\<not> file_exists w (postDataRestore (done_paths (cfPaths specs)))"
    and "pg_restore_list_result e w (postFilename (dumpPaths specs)) = Some contents"
    and "createPQExpBuffer_result e (listed specs w) = AllocOk"
    and "appends_ok e specs (listed specs w) contents"
  shows "\<exists>r w' evs.
     copydb_target_finalize_schema e specs w = (r, w') \<and>
     new_events w w' =
       PgRestoreList (postFilename (dumpPaths specs)) True #
       WriteFile (listFilename (dumpPaths specs)) (manifest_text e specs w contents)
         (write_file_ok e (listed specs w) (manifest_text e specs w contents)
            (listFilename (dumpPaths specs))) # evs"
proof -
  obtain r w' where res: "restore_with_list e specs w contents = (r, w')"
    by (cases "restore_with_list e specs w contents")
  with assms(4,5) have "copydb_target_finalize_schema e specs w = (r, w')"
    by (simp add: finalize_cases [OF assms(1-3)])
  with restore_with_list_events [OF res] show ?thesis by blast
qed

subsection \<open>copydb\_dump\_source\_schema, block by block\<close>

lemmas dump_defs = copydb_dump_source_schema_def dump_pre_data_def dump_post_data_def
  pg_dump_db_def write_file_def new_events_def file_exists_def Let_def

lemmas restore_defs = copydb_target_prepare_schema_def copydb_target_finalize_schema_def
  pg_restore_db_def pg_restore_list_def write_file_def new_events_def file_exists_def Let_def

lemma dump_pre_section:
  "copydb_dump_source_schema e specs snapshot PG_DUMP_SECTION_PRE_DATA w =
     dump_pre_data e specs snapshot w"
  by (auto simp add: copydb_dump_source_schema_def split: prod.splits bool.splits)

lemma dump_post_section:
  "copydb_dump_source_schema e specs snapshot PG_DUMP_SECTION_POST_DATA w =
     dump_post_data e specs snapshot w"
  by (auto simp add: copydb_dump_source_schema_def split: prod.splits bool.splits)

lemma dump_both_sections:
  "section = PG_DUMP_SECTION_SCHEMA \<or> section = PG_DUMP_SECTION_ALL \<Longrightarrow>
   copydb_dump_source_schema e specs snapshot section w =
     (case dump_pre_data e specs snapshot w of
        (False, w1) \<Rightarrow> (False, w1)
      | (True, w1) \<Rightarrow> dump_post_data e specs snapshot w1)"
  by (auto simp add: copydb_dump_source_schema_def split: prod.splits bool.splits)

lemma dump_pre_data_skip:
  "file_exists w (preDataDump (done_paths (cfPaths specs))) \<Longrightarrow>
   dump_pre_data e specs snapshot w =
     write_file e [] (preDataDump (done_paths (cfPaths specs))) w"
  by (simp add: dump_pre_data_def)

lemma dump_post_data_skip:
  "file_exists w (postDataDump (done_paths (cfPaths specs))) \<Longrightarrow>
   dump_post_data e specs snapshot w =
     write_file e [] (postDataDump (done_paths (cfPaths specs))) w"
  by (simp add: dump_post_data_def)

lemma dump_pre_data_events:
  "dump_pre_data e specs snapshot w = (r1, w1) \<Longrightarrow>
   trace w1 = trace w @ new_events w w1 \<and> new_events w w1 \<noteq> [] \<and>
   (\<forall>ev \<in> set (new_events w w1). pre_data_event specs ev) \<and>
   (r1 \<longleftrightarrow> (\<forall>ev \<in> set (new_events w w1). event_ok ev)) \<and>
   (\<not> r1 \<longrightarrow> (\<forall>ev \<in> set (new_events w w1). \<not> (post_data_event specs ev \<and> event_ok ev)))"
  by (auto simp add: dump_pre_data_def pg_dump_db_def write_file_def new_events_def Let_def
      pre_data_event_def post_data_event_def split: if_splits option.splits prod.splits bool.splits)

lemma dump_post_data_events:
  "dump_post_data e specs snapshot w1 = (r2, w2) \<Longrightarrow>
   trace w2 = trace w1 @ new_events w1 w2 \<and> new_events w1 w2 \<noteq> [] \<and>
   (\<forall>ev \<in> set (new_events w1 w2). post_data_event specs ev)"
  by (auto simp add: dump_post_data_def pg_dump_db_def write_file_def new_events_def Let_def
      post_data_event_def split: if_splits option.splits prod.splits bool.splits)

lemma dump_pre_data_parts:
  assumes "dump_pre_data e specs snapshot w = (r1, w1)"
  shows "trace w1 = trace w @ new_events w w1"
    and "new_events w w1 \<noteq> []"
    and "\<forall>ev \<in> set (new_events w w1). pre_data_event specs ev"
    and "r1 \<longleftrightarrow> (\<forall>ev \<in> set (new_events w w1). event_ok ev)"
    and "\<not> r1 \<longrightarrow> (\<forall>ev \<in> set (new_events w w1). \<not> (post_data_event specs ev \<and> event_ok ev))"
  using dump_pre_data_events [OF assms] by blast+

lemma dump_post_data_parts:
  assumes "dump_post_data e specs snapshot w1 = (r2, w2)"
  shows "trace w2 = trace w1 @ new_events w1 w2"
    and "new_events w1 w2 \<noteq> []"
    and "\<forall>ev \<in> set (new_events w1 w2). post_data_event specs ev"
  using dump_post_data_events [OF assms] by blast+





lemma dump_failed:
  "copydb_dump_source_schema e specs snapshot section w = (r, w') \<Longrightarrow>
   PgDump pguri snap label filename False \<in> set (new_events w w') \<Longrightarrow>
   \<not> r \<and> last (trace w') = PgDump pguri snap label filename False \<and>
   (label = ''pre-data'' \<longrightarrow> \<not> file_exists w' (preDataDump (done_paths (cfPaths specs)))) \<and>
   (label = ''post-data'' \<longrightarrow> \<not> file_exists w' (postDataDump (done_paths (cfPaths specs))))"
  by (auto simp add: dump_defs split: if_splits option.splits prod.splits)

lemma prepare_failed:
  "copydb_target_prepare_schema e specs w = (r, w') \<Longrightarrow>
   PgRestore pguri dumpFilename listFile options False \<in> set (new_events w w') \<Longrightarrow>
   \<not> r \<and> last (trace w') = PgRestore pguri dumpFilename listFile options False \<and>
   \<not> file_exists w' (preDataRestore (done_paths (cfPaths specs)))"
  by (auto simp add: restore_defs split: if_splits prod.splits bool.splits)

lemma finalize_failed:
  "copydb_target_finalize_schema e specs w = (r, w') \<Longrightarrow>
   listFilename (dumpPaths specs) \<noteq> postDataRestore (done_paths (cfPaths specs)) \<Longrightarrow>
   PgRestore pguri dumpFilename listFile options False \<in> set (new_events w w') \<Longrightarrow>
   \<not> r \<and> last (trace w') = PgRestore pguri dumpFilename listFile options False \<and>
   \<not> file_exists w' (postDataRestore (done_paths (cfPaths specs)))"
  by (auto simp add: restore_defs split: if_splits option.splits prod.splits bool.splits)

subsection \<open>Evaluation on the concrete inputs\<close>

lemmas example_defs = on_disk_def specs0_def env0_def env_write_fails_def env_tools_fail_def
  env_two_entries_def env_small_buffer_def env_list_write_fails_def two_entries_def
  disk_all_done_def disk_dumps_only_def disk_index_100_built_def

lemma doneFile_100: "doneFile env0 specs0 100 = ''idx/100.done''"
  by (simp add: doneFile_def sformat_def env0_def specs0_def fmt_u_def dec.simps digit_def)

lemma doneFile_two_entries:
  "doneFile env_two_entries specs0 100 = ''idx/100.done''"
  "doneFile env_two_entries specs0 101 = ''idx/101.done''"
  by (simp_all add: doneFile_def sformat_def env_two_entries_def env0_def specs0_def fmt_u_def
      dec.simps digit_def)

lemma exists_two_entries:
  "file_exists disk_index_100_built ''idx/100.done''"
  "\<not> file_exists disk_index_100_built ''idx/101.done''"
  "file_exists disk_index_100_built ''post.dump''"
  "\<not> file_exists disk_index_100_built ''rpost.done''"
  by (simp_all add: file_exists_def disk_index_100_built_def on_disk_def)

lemma two_entries_manifest_lines:
  "manifest_lines env_two_entries specs0 disk_index_100_built two_entries =
     ['';1; 2608 100'', ''2; 2608 101'']"
  by (simp add: manifest_lines_def two_entries_def doneFile_two_entries exists_two_entries
       manifest_line_def show_int_def dec.simps digit_def)

lemma two_entries_text:
  "manifest_text env_two_entries specs0 disk_index_100_built two_entries =
     '';1; 2608 100\<newline>2; 2608 101\<newline>''"
  by (simp add: manifest_text_def two_entries_manifest_lines)

lemma two_entries_lines:
  "text_lines '';1; 2608 100\<newline>2; 2608 101\<newline>'' = ['';1; 2608 100'', ''2; 2608 101'']"
  by (simp add: text_lines_def)

lemma manifest_text_other_env:
  "manifest_text (e\<lparr>enlargePQExpBuffer_ok := f\<rparr>) specs w contents =
     manifest_text e specs w contents"
  "manifest_text (e\<lparr>write_file_ok := g\<rparr>) specs w contents = manifest_text e specs w contents"
  by (simp_all add: manifest_text_def manifest_lines_def doneFile_def)

lemma specs0_paths:
  "postFilename (dumpPaths specs0) = ''post.dump''"
  "preFilename (dumpPaths specs0) = ''pre.dump''"
  "listFilename (dumpPaths specs0) = ''post.list''"
  "preDataDump (done_paths (cfPaths specs0)) = ''pre.done''"
  "postDataDump (done_paths (cfPaths specs0)) = ''post.done''"
  "preDataRestore (done_paths (cfPaths specs0)) = ''rpre.done''"
  "postDataRestore (done_paths (cfPaths specs0)) = ''rpost.done''"
  "source_pguri specs0 = ''source''"
  "target_pguri specs0 = ''target''"
  "restoreOptions specs0 = ''''"
  by (simp_all add: specs0_def)

lemma two_entries_listing:
  "pg_restore_list_result env_two_entries w filename = Some two_entries"
  "pg_restore_list_result env_small_buffer w filename = Some two_entries"
  "pg_restore_list_result env_list_write_fails w filename = Some two_entries"
  by (simp_all add: env_two_entries_def env_small_buffer_def env_list_write_fails_def)

lemma two_entries_alloc:
  "createPQExpBuffer_result env_two_entries w = AllocOk"
  "createPQExpBuffer_result env_small_buffer w = AllocOk"
  "createPQExpBuffer_result env_list_write_fails w = AllocOk"
  "appends_ok env_two_entries specs w contents"
  "appends_ok env_list_write_fails specs w contents"
  by (simp_all add: env_two_entries_def env_small_buffer_def env_list_write_fails_def env0_def
      appends_ok_def)

lemma small_buffer_breaks:
  "\<not> appends_ok env_small_buffer specs0 (listed specs0 disk_index_100_built) two_entries"
proof
  assume "appends_ok env_small_buffer specs0 (listed specs0 disk_index_100_built) two_entries"
  then have "\<forall>k < length two_entries.
      enlargePQExpBuffer_ok env_small_buffer (listed specs0 disk_index_100_built)
        (length (manifest_text env_small_buffer specs0 (listed specs0 disk_index_100_built)
           (take (Suc k) two_entries)))"
    unfolding appends_ok_def .
  moreover have "1 < length two_entries"
    by (simp add: two_entries_def)
  ultimately have "enlargePQExpBuffer_ok env_small_buffer (listed specs0 disk_index_100_built)
      (length (manifest_text env_small_buffer specs0 (listed specs0 disk_index_100_built)
         (take (Suc 1) two_entries)))"
    by blast
  moreover have "take (Suc 1) two_entries = two_entries"
    by (simp add: two_entries_def)
  ultimately show False
    by (simp add: env_small_buffer_def manifest_text_other_env two_entries_text)
qed

text \<open>
  The run of the scenario: OID 100 has a marker (an empty file), OID 101 has none. The
  list is written, the restore runs with it, and the tracking file is written.
\<close>

lemma two_entries_run:
  "copydb_target_finalize_schema env_two_entries specs0 disk_index_100_built =
     (True,
       \<lparr>files = (files disk_index_100_built)
          (''post.list'' \<mapsto> '';1; 2608 100\<newline>2; 2608 101\<newline>'', ''rpost.done'' \<mapsto> ''''),
        trace = [PgRestoreList ''post.dump'' True,
                 WriteFile ''post.list'' '';1; 2608 100\<newline>2; 2608 101\<newline>'' True,
                 PgRestore ''target'' ''post.dump'' (Some ''post.list'') '''' True,
                 WriteFile ''rpost.done'' '''' True]\<rparr>)"
proof -
  have h: "file_exists disk_index_100_built (postFilename (dumpPaths specs0))"
    "\<not> file_exists disk_index_100_built (postDataRestore (done_paths (cfPaths specs0)))"
    "pg_restore_list_result env_two_entries disk_index_100_built (postFilename (dumpPaths specs0)) =
       Some two_entries"
    by (simp_all add: specs0_paths exists_two_entries two_entries_listing)
  have "copydb_target_finalize_schema env_two_entries specs0 disk_index_100_built =
      restore_with_list env_two_entries specs0 disk_index_100_built two_entries"
    by (simp add: finalize_cases [OF h] two_entries_alloc)
  also have "\<dots> = (True,
       \<lparr>files = (files disk_index_100_built)
          (''post.list'' \<mapsto> '';1; 2608 100\<newline>2; 2608 101\<newline>'', ''rpost.done'' \<mapsto> ''''),
        trace = [PgRestoreList ''post.dump'' True,
                 WriteFile ''post.list'' '';1; 2608 100\<newline>2; 2608 101\<newline>'' True,
                 PgRestore ''target'' ''post.dump'' (Some ''post.list'') '''' True,
                 WriteFile ''rpost.done'' '''' True]\<rparr>)"
    unfolding restore_with_list_def two_entries_text specs0_paths
    by (simp add: write_file_def pg_restore_db_def listed_def env_two_entries_def env0_def
        disk_index_100_built_def on_disk_def specs0_paths)
  finally show ?thesis .
qed

subsection \<open>The claims\<close>

text \<open>
  C1. Let the post-data archive exist, its restore not be done yet, and the archive list
  the entries \<open>contents\<close>. For every set of object markers on disk, whatever the marker
  files hold: a list file written by \<^verbatim>\<open>copydb_target_finalize_schema\<close> holds exactly
  \<open>manifest_text\<close>; and when the buffer can be allocated and grown, the call writes
  that text, right after listing the archive. The text is, entry by entry and in their
  order, the line \<^verbatim>\<open><dumpId>; <catalogOid> <objectOid>\<close>, prefixed by \<^verbatim>\<open>;\<close> exactly
  when the marker file of the entry's object OID exists, and followed by a newline; cut at
  the newlines it has one line per entry.
\<close>

theorem manifest_one_line_per_entry:
  assumes "file_exists w (postFilename (dumpPaths specs))"
    and "\<not> file_exists w (postDataRestore (done_paths (cfPaths specs)))"
    and "pg_restore_list_result e w (postFilename (dumpPaths specs)) = Some contents"
  shows
    "(\<forall>r w' c ok.
        copydb_target_finalize_schema e specs w = (r, w') \<and>
        listFilename (dumpPaths specs) \<noteq> postDataRestore (done_paths (cfPaths specs)) \<and>
        WriteFile (listFilename (dumpPaths specs)) c ok \<in> set (new_events w w') \<longrightarrow>
          c = manifest_text e specs w contents) \<and>
     (createPQExpBuffer_result e (listed specs w) = AllocOk \<and>
      appends_ok e specs (listed specs w) contents \<longrightarrow>
        (\<exists>r w' ok evs.
           copydb_target_finalize_schema e specs w = (r, w') \<and>
           new_events w w' =
             PgRestoreList (postFilename (dumpPaths specs)) True #
             WriteFile (listFilename (dumpPaths specs)) (manifest_text e specs w contents) ok #
             evs)) \<and>
     manifest_text e specs w contents =
       concat (map (\<lambda>item.
         (if file_exists w (doneFile e specs (objectOid item)) then '';'' else '''') @
         fmt_d (dumpId item) @ ''; '' @ fmt_u (catalogOid item) @ '' '' @
         fmt_u (objectOid item) @ [CHR ''\<newline>'']) contents) \<and>
     length (text_lines (manifest_text e specs w contents)) = length contents \<and>
     (\<forall>i < length contents.
        text_lines (manifest_text e specs w contents) ! i =
          (if file_exists w (doneFile e specs (objectOid (contents ! i))) then '';'' else '''') @
          show_int (sint (dumpId (contents ! i))) @ ''; '' @
          dec (unat (catalogOid (contents ! i))) @ '' '' @ dec (unat (objectOid (contents ! i))))"
proof -
  have written: "\<forall>r w' c ok.
        copydb_target_finalize_schema e specs w = (r, w') \<and>
        listFilename (dumpPaths specs) \<noteq> postDataRestore (done_paths (cfPaths specs)) \<and>
        WriteFile (listFilename (dumpPaths specs)) c ok \<in> set (new_events w w') \<longrightarrow>
          c = manifest_text e specs w contents"
    using finalize_writes_complete_list [OF assms] by blast
  have run: "createPQExpBuffer_result e (listed specs w) = AllocOk \<and>
      appends_ok e specs (listed specs w) contents \<longrightarrow>
        (\<exists>r w' ok evs.
           copydb_target_finalize_schema e specs w = (r, w') \<and>
           new_events w w' =
             PgRestoreList (postFilename (dumpPaths specs)) True #
             WriteFile (listFilename (dumpPaths specs)) (manifest_text e specs w contents) ok #
             evs)"
    using finalize_writes_list [OF assms] by blast
  have shape: "manifest_text e specs w contents =
       concat (map (\<lambda>item.
         (if file_exists w (doneFile e specs (objectOid item)) then '';'' else '''') @
         fmt_d (dumpId item) @ ''; '' @ fmt_u (catalogOid item) @ '' '' @
         fmt_u (objectOid item) @ [CHR ''\<newline>'']) contents)"
    by (simp add: manifest_text_def manifest_lines_def manifest_line_def fmt_d_def fmt_u_def
        show_int_def comp_def)
  have lines: "text_lines (manifest_text e specs w contents) = manifest_lines e specs w contents"
    by (rule text_lines_manifest)
  have len: "length (text_lines (manifest_text e specs w contents)) = length contents"
    by (simp add: lines manifest_lines_def)
  have nth: "\<forall>i < length contents.
        text_lines (manifest_text e specs w contents) ! i =
          (if file_exists w (doneFile e specs (objectOid (contents ! i))) then '';'' else '''') @
          show_int (sint (dumpId (contents ! i))) @ ''; '' @
          dec (unat (catalogOid (contents ! i))) @ '' '' @ dec (unat (objectOid (contents ! i)))"
    by (simp add: lines manifest_lines_def manifest_line_def)
  from written run shape len nth show ?thesis by (intro conjI)
qed

theorem manifest_two_entries_witness:
  "file_exists disk_index_100_built (postFilename (dumpPaths specs0)) \<and>
   \<not> file_exists disk_index_100_built (postDataRestore (done_paths (cfPaths specs0))) \<and>
   pg_restore_list_result env_two_entries disk_index_100_built (postFilename (dumpPaths specs0)) =
     Some two_entries \<and>
   files disk_index_100_built (doneFile env_two_entries specs0 100) = Some '''' \<and>
   \<not> file_exists disk_index_100_built (doneFile env_two_entries specs0 101) \<and>
   (\<exists>r w' ok evs.
      copydb_target_finalize_schema env_two_entries specs0 disk_index_100_built = (r, w') \<and>
      new_events disk_index_100_built w' =
        PgRestoreList ''post.dump'' True #
        WriteFile ''post.list'' '';1; 2608 100\<newline>2; 2608 101\<newline>'' ok # evs) \<and>
   text_lines '';1; 2608 100\<newline>2; 2608 101\<newline>'' = ['';1; 2608 100'', ''2; 2608 101'']"
proof -
  have h: "file_exists disk_index_100_built (postFilename (dumpPaths specs0))"
    "\<not> file_exists disk_index_100_built (postDataRestore (done_paths (cfPaths specs0)))"
    "pg_restore_list_result env_two_entries disk_index_100_built (postFilename (dumpPaths specs0)) =
       Some two_entries"
    by (simp_all add: specs0_paths exists_two_entries two_entries_listing)
  have empty_marker: "files disk_index_100_built ''idx/100.done'' = Some ''''"
    by (simp add: disk_index_100_built_def on_disk_def)
  from manifest_one_line_per_entry [OF h] two_entries_alloc
  have "\<exists>r w' ok evs.
      copydb_target_finalize_schema env_two_entries specs0 disk_index_100_built = (r, w') \<and>
      new_events disk_index_100_built w' =
        PgRestoreList (postFilename (dumpPaths specs0)) True #
        WriteFile (listFilename (dumpPaths specs0))
          (manifest_text env_two_entries specs0 disk_index_100_built two_entries) ok # evs"
    by blast
  with h empty_marker show ?thesis
    by (simp add: specs0_paths two_entries_text two_entries_lines doneFile_two_entries
        exists_two_entries)
qed

text \<open>
  C7. For every OID and every state of the disk, \<^verbatim>\<open>copydb_objectid_has_been_processed_already\<close>
  returns true exactly when the marker file of the OID exists. The value does not depend on
  what the file holds, on whether it can be read, on how \<^verbatim>\<open>splitLines\<close> cuts it, nor on
  \<open>BUFSIZE\<close>: two calls for which the marker file exists alike return the same value.
\<close>

theorem processed_already_returns_iff_marker_exists:
  "(copydb_objectid_has_been_processed_already_returns e specs w oid \<longleftrightarrow>
      file_exists w (doneFile e specs oid)) \<and>
   (\<forall>e' w'.
      MAXPGPATH e' = MAXPGPATH e \<and>
      (file_exists w' (doneFile e specs oid) \<longleftrightarrow> file_exists w (doneFile e specs oid)) \<longrightarrow>
        copydb_objectid_has_been_processed_already_returns e' specs w' oid =
        copydb_objectid_has_been_processed_already_returns e specs w oid)"
proof (intro conjI allI impI)
  show "copydb_objectid_has_been_processed_already_returns e specs w oid \<longleftrightarrow>
      file_exists w (doneFile e specs oid)"
    by (rule lookup_returns)
next
  fix e' :: env and w' :: world
  assume h: "MAXPGPATH e' = MAXPGPATH e \<and>
      (file_exists w' (doneFile e specs oid) \<longleftrightarrow> file_exists w (doneFile e specs oid))"
  then have path: "doneFile e' specs oid = doneFile e specs oid"
    by (simp add: doneFile_def)
  have "copydb_objectid_has_been_processed_already_returns e' specs w' oid =
        file_exists w' (doneFile e specs oid)"
    unfolding lookup_returns path ..
  also have "\<dots> = file_exists w (doneFile e specs oid)"
    using h by blast
  also have "\<dots> = copydb_objectid_has_been_processed_already_returns e specs w oid"
    unfolding lookup_returns ..
  finally show "copydb_objectid_has_been_processed_already_returns e' specs w' oid =
        copydb_objectid_has_been_processed_already_returns e specs w oid" .
qed

theorem processed_already_returns_witness:
  "copydb_objectid_has_been_processed_already_returns env0 specs0
     (on_disk [(''idx/100.done'', ''CREATE INDEX'')]) 100 \<and>
   copydb_objectid_has_been_processed_already_returns env0 specs0
     (on_disk [(''idx/100.done'', '''')]) 100 \<and>
   copydb_objectid_has_been_processed_already_returns (env0\<lparr>read_file_ok := \<lambda>w path. False\<rparr>)
     specs0 (on_disk [(''idx/100.done'', ''CREATE INDEX'')]) 100 \<and>
   \<not> copydb_objectid_has_been_processed_already_returns env0 specs0
     (on_disk [(''idx/101.done'', '''')]) 100"
proof -
  let ?text = "on_disk [(''idx/100.done'', ''CREATE INDEX'')]"
  let ?empty = "on_disk [(''idx/100.done'', '''')]"
  let ?other = "on_disk [(''idx/101.done'', '''')]"
  let ?unreadable = "env0\<lparr>read_file_ok := \<lambda>w path. False\<rparr>"
  have present: "file_exists ?text (doneFile env0 specs0 100)"
    "file_exists ?empty (doneFile env0 specs0 100)"
    "\<not> file_exists ?other (doneFile env0 specs0 100)"
    by (simp_all add: doneFile_100 file_exists_def on_disk_def)
  have same: "MAXPGPATH ?unreadable = MAXPGPATH env0"
    by simp
  from processed_already_returns_iff_marker_exists [of env0 specs0 ?text 100] present(1)
  have a: "copydb_objectid_has_been_processed_already_returns env0 specs0 ?text 100"
    by blast
  from processed_already_returns_iff_marker_exists [of env0 specs0 ?text 100] present same
  have b: "copydb_objectid_has_been_processed_already_returns env0 specs0 ?empty 100 =
           copydb_objectid_has_been_processed_already_returns env0 specs0 ?text 100"
    and c: "copydb_objectid_has_been_processed_already_returns ?unreadable specs0 ?text 100 =
            copydb_objectid_has_been_processed_already_returns env0 specs0 ?text 100"
    by blast+
  from processed_already_returns_iff_marker_exists [of env0 specs0 ?other 100] present(3)
  have d: "\<not> copydb_objectid_has_been_processed_already_returns env0 specs0 ?other 100"
    by blast
  from a b c d show ?thesis by simp
qed

text \<open>
  C9. The claim that the read of \<^verbatim>\<open>lines[lineCount - 1]\<close> is in bounds for every content
  of the marker file does not hold on the code. When the marker file exists, the read is
  in bounds exactly when \<^verbatim>\<open>splitLines\<close> found at least one line (and no more than
  \<open>BUFSIZE\<close>); when it found none, the index read is \<open>-1\<close>.
\<close>

theorem last_line_read_in_bounds_iff:
  "file_exists w (doneFile e specs oid) \<Longrightarrow>
   copydb_objectid_has_been_processed_already e specs w oid =
     (if 1 \<le> length (splitLines e (read_file e w (doneFile e specs oid)) (BUFSIZE e)) \<and>
         length (splitLines e (read_file e w (doneFile e specs oid)) (BUFSIZE e)) \<le> BUFSIZE e
      then Inr True
      else Inl (OutOfBoundsRead
             (int (length (splitLines e (read_file e w (doneFile e specs oid)) (BUFSIZE e))) - 1)))"
  by (auto simp add: copydb_objectid_has_been_processed_already_def array_read_def
      lines_array_length Let_def Suc_le_eq)

theorem last_line_read_empty_marker:
  "file_exists (on_disk [(''idx/100.done'', '''')]) (doneFile env0 specs0 100) \<and>
   splitLines env0 (read_file env0 (on_disk [(''idx/100.done'', '''')]) (doneFile env0 specs0 100))
     (BUFSIZE env0) = [] \<and>
   copydb_objectid_has_been_processed_already env0 specs0 (on_disk [(''idx/100.done'', '''')]) 100
     = Inl (OutOfBoundsRead (- 1))"
  using last_line_read_in_bounds_iff [of "on_disk [(''idx/100.done'', '''')]" env0 specs0 100]
  by (simp add: doneFile_100 file_exists_def on_disk_def read_file_def)
     (simp add: env0_def splitLines_std_def text_lines_def)

text \<open>
  C4. Let the post-data archive exist, its restore not be done yet, and the archive list
  the entries \<open>contents\<close>. A list file written by \<^verbatim>\<open>copydb_target_finalize_schema\<close>,
  cut at its newlines and read back line by line, gives the entries of \<open>contents\<close> in
  their order: line \<open>i\<close> holds the three numbers of entry \<open>i\<close>, and is commented out
  exactly when the marker file of that entry's object OID exists. When the buffer can be
  allocated and grown, such a file is written, whatever the marker files hold.
\<close>

theorem manifest_keeps_input_order:
  assumes "file_exists w (postFilename (dumpPaths specs))"
    and "\<not> file_exists w (postDataRestore (done_paths (cfPaths specs)))"
    and "pg_restore_list_result e w (postFilename (dumpPaths specs)) = Some contents"
  shows
    "(\<forall>r w' c ok.
        copydb_target_finalize_schema e specs w = (r, w') \<and>
        listFilename (dumpPaths specs) \<noteq> postDataRestore (done_paths (cfPaths specs)) \<and>
        WriteFile (listFilename (dumpPaths specs)) c ok \<in> set (new_events w w') \<longrightarrow>
          map entry_of_line (text_lines c) = contents \<and>
          map (\<lambda>l. fst (parse_manifest_line l)) (text_lines c) =
            map (\<lambda>item. file_exists w (doneFile e specs (objectOid item))) contents) \<and>
     (createPQExpBuffer_result e (listed specs w) = AllocOk \<and>
      appends_ok e specs (listed specs w) contents \<longrightarrow>
        (\<exists>r w' c ok evs.
           copydb_target_finalize_schema e specs w = (r, w') \<and>
           new_events w w' =
             PgRestoreList (postFilename (dumpPaths specs)) True #
             WriteFile (listFilename (dumpPaths specs)) c ok # evs \<and>
           map entry_of_line (text_lines c) = contents \<and>
           map (\<lambda>l. fst (parse_manifest_line l)) (text_lines c) =
             map (\<lambda>item. file_exists w (doneFile e specs (objectOid item))) contents))"
proof -
  have readback: "map entry_of_line (text_lines (manifest_text e specs w contents)) = contents"
    "map (\<lambda>l. fst (parse_manifest_line l)) (text_lines (manifest_text e specs w contents)) =
       map (\<lambda>item. file_exists w (doneFile e specs (objectOid item))) contents"
    by (simp_all add: text_lines_manifest entries_of_manifest flags_of_manifest)
  have written: "\<forall>r w' c ok.
        copydb_target_finalize_schema e specs w = (r, w') \<and>
        listFilename (dumpPaths specs) \<noteq> postDataRestore (done_paths (cfPaths specs)) \<and>
        WriteFile (listFilename (dumpPaths specs)) c ok \<in> set (new_events w w') \<longrightarrow>
          map entry_of_line (text_lines c) = contents \<and>
          map (\<lambda>l. fst (parse_manifest_line l)) (text_lines c) =
            map (\<lambda>item. file_exists w (doneFile e specs (objectOid item))) contents"
  proof (intro allI impI, elim conjE)
    fix r w' c ok
    assume run: "copydb_target_finalize_schema e specs w = (r, w')"
      and distinct: "listFilename (dumpPaths specs) \<noteq> postDataRestore (done_paths (cfPaths specs))"
      and ev: "WriteFile (listFilename (dumpPaths specs)) c ok \<in> set (new_events w w')"
    from finalize_writes_complete_list [OF assms run distinct ev]
    have "c = manifest_text e specs w contents" .
    with readback show "map entry_of_line (text_lines c) = contents \<and>
          map (\<lambda>l. fst (parse_manifest_line l)) (text_lines c) =
            map (\<lambda>item. file_exists w (doneFile e specs (objectOid item))) contents"
      by simp
  qed
  have run: "createPQExpBuffer_result e (listed specs w) = AllocOk \<and>
      appends_ok e specs (listed specs w) contents \<longrightarrow>
        (\<exists>r w' c ok evs.
           copydb_target_finalize_schema e specs w = (r, w') \<and>
           new_events w w' =
             PgRestoreList (postFilename (dumpPaths specs)) True #
             WriteFile (listFilename (dumpPaths specs)) c ok # evs \<and>
           map entry_of_line (text_lines c) = contents \<and>
           map (\<lambda>l. fst (parse_manifest_line l)) (text_lines c) =
             map (\<lambda>item. file_exists w (doneFile e specs (objectOid item))) contents)"
  proof (intro impI, elim conjE)
    assume ok: "createPQExpBuffer_result e (listed specs w) = AllocOk"
      "appends_ok e specs (listed specs w) contents"
    from finalize_writes_list [OF assms ok] obtain r w' evs where
      "copydb_target_finalize_schema e specs w = (r, w')"
      "new_events w w' =
         PgRestoreList (postFilename (dumpPaths specs)) True #
         WriteFile (listFilename (dumpPaths specs)) (manifest_text e specs w contents)
           (write_file_ok e (listed specs w) (manifest_text e specs w contents)
              (listFilename (dumpPaths specs))) # evs"
      by blast
    with readback
    show "\<exists>r w' c ok evs.
           copydb_target_finalize_schema e specs w = (r, w') \<and>
           new_events w w' =
             PgRestoreList (postFilename (dumpPaths specs)) True #
             WriteFile (listFilename (dumpPaths specs)) c ok # evs \<and>
           map entry_of_line (text_lines c) = contents \<and>
           map (\<lambda>l. fst (parse_manifest_line l)) (text_lines c) =
             map (\<lambda>item. file_exists w (doneFile e specs (objectOid item))) contents"
      by (intro exI [of _ r] exI [of _ w'] exI [of _ "manifest_text e specs w contents"]
          exI [of _ "write_file_ok e (listed specs w) (manifest_text e specs w contents)
              (listFilename (dumpPaths specs))"] exI [of _ evs]) simp
  qed
  from written run show ?thesis by (intro conjI)
qed

theorem manifest_order_witness:
  "file_exists disk_index_100_built (postFilename (dumpPaths specs0)) \<and>
   \<not> file_exists disk_index_100_built (postDataRestore (done_paths (cfPaths specs0))) \<and>
   pg_restore_list_result env_two_entries disk_index_100_built (postFilename (dumpPaths specs0)) =
     Some two_entries \<and>
   files disk_index_100_built (doneFile env_two_entries specs0 100) = Some '''' \<and>
   (\<exists>r w' c ok evs.
      copydb_target_finalize_schema env_two_entries specs0 disk_index_100_built = (r, w') \<and>
      new_events disk_index_100_built w' =
        PgRestoreList ''post.dump'' True # WriteFile ''post.list'' c ok # evs \<and>
      map entry_of_line (text_lines c) = two_entries \<and>
      map (\<lambda>l. fst (parse_manifest_line l)) (text_lines c) = [True, False])"
proof -
  have h: "file_exists disk_index_100_built (postFilename (dumpPaths specs0))"
    "\<not> file_exists disk_index_100_built (postDataRestore (done_paths (cfPaths specs0)))"
    "pg_restore_list_result env_two_entries disk_index_100_built (postFilename (dumpPaths specs0)) =
       Some two_entries"
    by (simp_all add: specs0_paths exists_two_entries two_entries_listing)
  have empty_marker: "files disk_index_100_built (doneFile env_two_entries specs0 100) = Some ''''"
    by (simp add: doneFile_two_entries disk_index_100_built_def on_disk_def)
  have flags: "map (\<lambda>item. file_exists disk_index_100_built
      (doneFile env_two_entries specs0 (objectOid item))) two_entries = [True, False]"
    by (simp add: two_entries_def doneFile_two_entries exists_two_entries)
  from manifest_keeps_input_order [OF h] two_entries_alloc
  have "\<exists>r w' c ok evs.
      copydb_target_finalize_schema env_two_entries specs0 disk_index_100_built = (r, w') \<and>
      new_events disk_index_100_built w' =
        PgRestoreList (postFilename (dumpPaths specs0)) True #
        WriteFile (listFilename (dumpPaths specs0)) c ok # evs \<and>
      map entry_of_line (text_lines c) = two_entries \<and>
      map (\<lambda>l. fst (parse_manifest_line l)) (text_lines c) =
        map (\<lambda>item. file_exists disk_index_100_built
          (doneFile env_two_entries specs0 (objectOid item))) two_entries"
    by blast
  with h empty_marker flags show ?thesis
    by (simp add: specs0_paths)
qed

text \<open>
  C5. Let the post-data archive exist, its restore not be done yet, and the archive list
  the entries \<open>contents\<close>. If the buffer cannot be allocated (NULL or broken), or cannot
  grow for one of the lines, the call returns false right after the listing: no file is
  written and no restore is run. If the buffer holds the complete list and the write of
  the list file fails, the call returns false after that failed write, and no restore is
  run. In every case the only content ever written to the list file is the complete list,
  and a restore is run only after the complete list file was written with success.
\<close>

theorem manifest_failure_stops_before_restore:
  assumes "file_exists w (postFilename (dumpPaths specs))"
    and "\<not> file_exists w (postDataRestore (done_paths (cfPaths specs)))"
    and "pg_restore_list_result e w (postFilename (dumpPaths specs)) = Some contents"
  shows "(createPQExpBuffer_result e (listed specs w) \<noteq> AllocOk \<or>
          \<not> appends_ok e specs (listed specs w) contents \<longrightarrow>
            copydb_target_finalize_schema e specs w = (False, listed specs w)) \<and>
         (createPQExpBuffer_result e (listed specs w) = AllocOk \<and>
          appends_ok e specs (listed specs w) contents \<and>
          \<not> write_file_ok e (listed specs w) (manifest_text e specs w contents)
              (listFilename (dumpPaths specs)) \<longrightarrow>
            copydb_target_finalize_schema e specs w =
              (False,
                \<lparr>files = files w,
                 trace = trace w @
                   [PgRestoreList (postFilename (dumpPaths specs)) True,
                    WriteFile (listFilename (dumpPaths specs))
                      (manifest_text e specs w contents) False]\<rparr>)) \<and>
         (\<exists>r w'. copydb_target_finalize_schema e specs w = (r, w') \<and>
            (listFilename (dumpPaths specs) \<noteq> postDataRestore (done_paths (cfPaths specs)) \<longrightarrow>
               (\<forall>c ok. WriteFile (listFilename (dumpPaths specs)) c ok \<in> set (new_events w w') \<longrightarrow>
                  c = manifest_text e specs w contents)) \<and>
            ((\<exists>ev \<in> set (new_events w w'). is_restore ev) \<longrightarrow>
               WriteFile (listFilename (dumpPaths specs)) (manifest_text e specs w contents) True
                 \<in> set (new_events w w')))"
proof -
  have a: "createPQExpBuffer_result e (listed specs w) \<noteq> AllocOk \<or>
          \<not> appends_ok e specs (listed specs w) contents \<longrightarrow>
            copydb_target_finalize_schema e specs w = (False, listed specs w)"
    by (auto simp add: finalize_cases [OF assms])
  have b: "createPQExpBuffer_result e (listed specs w) = AllocOk \<and>
          appends_ok e specs (listed specs w) contents \<and>
          \<not> write_file_ok e (listed specs w) (manifest_text e specs w contents)
              (listFilename (dumpPaths specs)) \<longrightarrow>
            copydb_target_finalize_schema e specs w =
              (False,
                \<lparr>files = files w,
                 trace = trace w @
                   [PgRestoreList (postFilename (dumpPaths specs)) True,
                    WriteFile (listFilename (dumpPaths specs))
                      (manifest_text e specs w contents) False]\<rparr>)"
    by (auto simp add: finalize_cases [OF assms] restore_with_list_def write_file_def
        listed_def)
  have c: "\<exists>r w'. copydb_target_finalize_schema e specs w = (r, w') \<and>
            (listFilename (dumpPaths specs) \<noteq> postDataRestore (done_paths (cfPaths specs)) \<longrightarrow>
               (\<forall>c ok. WriteFile (listFilename (dumpPaths specs)) c ok \<in> set (new_events w w') \<longrightarrow>
                  c = manifest_text e specs w contents)) \<and>
            ((\<exists>ev \<in> set (new_events w w'). is_restore ev) \<longrightarrow>
               WriteFile (listFilename (dumpPaths specs)) (manifest_text e specs w contents) True
                 \<in> set (new_events w w'))"
  proof (cases "createPQExpBuffer_result e (listed specs w) = AllocOk \<and>
          appends_ok e specs (listed specs w) contents")
    case False
    with a have "copydb_target_finalize_schema e specs w = (False, listed specs w)" by blast
    then show ?thesis
      by (intro exI [of _ False] exI [of _ "listed specs w"])
         (simp add: new_events_def listed_def is_restore_def)
  next
    case True
    obtain r w' where res: "restore_with_list e specs w contents = (r, w')"
      by (cases "restore_with_list e specs w contents")
    with True have run: "copydb_target_finalize_schema e specs w = (r, w')"
      by (simp add: finalize_cases [OF assms])
    from restore_with_list_events [OF res] run
    show ?thesis
      by (intro exI [of _ r] exI [of _ w']) (auto simp add: is_restore_def)
  qed
  from a b c show ?thesis by (intro conjI)
qed

theorem manifest_failure_witness:
  "file_exists disk_index_100_built (postFilename (dumpPaths specs0)) \<and>
   \<not> file_exists disk_index_100_built (postDataRestore (done_paths (cfPaths specs0))) \<and>
   files disk_index_100_built (doneFile env_two_entries specs0 100) = Some '''' \<and>
   \<not> appends_ok env_small_buffer specs0 (listed specs0 disk_index_100_built) two_entries \<and>
   copydb_target_finalize_schema env_small_buffer specs0 disk_index_100_built =
     (False, \<lparr>files = files disk_index_100_built,
              trace = [PgRestoreList ''post.dump'' True]\<rparr>) \<and>
   copydb_target_finalize_schema (env_two_entries\<lparr>createPQExpBuffer_result := \<lambda>w. AllocNull\<rparr>)
       specs0 disk_index_100_built =
     (False, \<lparr>files = files disk_index_100_built,
              trace = [PgRestoreList ''post.dump'' True]\<rparr>) \<and>
   copydb_target_finalize_schema env_list_write_fails specs0 disk_index_100_built =
     (False, \<lparr>files = files disk_index_100_built,
              trace = [PgRestoreList ''post.dump'' True,
                       WriteFile ''post.list'' '';1; 2608 100\<newline>2; 2608 101\<newline>'' False]\<rparr>)"
proof -
  let ?null = "env_two_entries\<lparr>createPQExpBuffer_result := \<lambda>w. AllocNull\<rparr>"
  have h: "file_exists disk_index_100_built (postFilename (dumpPaths specs0))"
    "\<not> file_exists disk_index_100_built (postDataRestore (done_paths (cfPaths specs0)))"
    by (simp_all add: specs0_paths exists_two_entries)
  have empty_marker: "files disk_index_100_built (doneFile env_two_entries specs0 100) = Some ''''"
    by (simp add: doneFile_two_entries disk_index_100_built_def on_disk_def)
  have no_write: "\<not> write_file_ok env_list_write_fails (listed specs0 disk_index_100_built)
      (manifest_text env_list_write_fails specs0 disk_index_100_built two_entries)
      (listFilename (dumpPaths specs0))"
    by (simp add: env_list_write_fails_def)
  have text_fails: "manifest_text env_list_write_fails specs0 disk_index_100_built two_entries =
      '';1; 2608 100\<newline>2; 2608 101\<newline>''"
    by (simp add: env_list_write_fails_def manifest_text_other_env two_entries_text)
  have empty_trace: "trace disk_index_100_built = []"
    by (simp add: disk_index_100_built_def on_disk_def)
  have null_listing: "pg_restore_list_result ?null disk_index_100_built
      (postFilename (dumpPaths specs0)) = Some two_entries"
    by (simp add: two_entries_listing)
  have null_alloc: "createPQExpBuffer_result ?null (listed specs0 disk_index_100_built) \<noteq> AllocOk"
    by simp
  from manifest_failure_stops_before_restore [OF h two_entries_listing(2)]
    small_buffer_breaks
  have first: "copydb_target_finalize_schema env_small_buffer specs0 disk_index_100_built =
      (False, listed specs0 disk_index_100_built)"
    by blast
  from manifest_failure_stops_before_restore [OF h null_listing] null_alloc
  have null: "copydb_target_finalize_schema ?null specs0 disk_index_100_built =
      (False, listed specs0 disk_index_100_built)"
    by blast
  from manifest_failure_stops_before_restore [OF h two_entries_listing(3)]
    two_entries_alloc(3,5) no_write
  have second: "copydb_target_finalize_schema env_list_write_fails specs0 disk_index_100_built =
      (False,
        \<lparr>files = files disk_index_100_built,
         trace = trace disk_index_100_built @
           [PgRestoreList (postFilename (dumpPaths specs0)) True,
            WriteFile (listFilename (dumpPaths specs0))
              (manifest_text env_list_write_fails specs0 disk_index_100_built two_entries)
              False]\<rparr>)"
    by blast
  from h empty_marker small_buffer_breaks first null second show ?thesis
    by (simp add: listed_def specs0_paths text_fails empty_trace)
qed




text \<open>
  C3. When the dump file of a restore stage is absent, the stage returns false and leaves
  the world as it was: nothing is added to the trace (no restore, no listing of the
  archive, no write of a list file or of a tracking file) and no file changes. The
  tracking file of the stage is tested only after the dump file, so this holds also when
  it exists.
\<close>

theorem restore_without_dump_file_fails_untouched:
  "(\<not> file_exists w (preFilename (dumpPaths specs)) \<longrightarrow>
      copydb_target_prepare_schema e specs w = (False, w)) \<and>
   (\<not> file_exists w (postFilename (dumpPaths specs)) \<longrightarrow>
      copydb_target_finalize_schema e specs w = (False, w))"
  by (simp add: copydb_target_prepare_schema_def copydb_target_finalize_schema_def)

theorem restore_without_dump_file_witness:
  "file_exists (on_disk [(''rpre.done'', ''''), (''rpost.done'', '''')])
     (preDataRestore (done_paths (cfPaths specs0))) \<and>
   file_exists (on_disk [(''rpre.done'', ''''), (''rpost.done'', '''')])
     (postDataRestore (done_paths (cfPaths specs0))) \<and>
   \<not> file_exists (on_disk [(''rpre.done'', ''''), (''rpost.done'', '''')])
     (preFilename (dumpPaths specs0)) \<and>
   \<not> file_exists (on_disk [(''rpre.done'', ''''), (''rpost.done'', '''')])
     (postFilename (dumpPaths specs0)) \<and>
   copydb_target_prepare_schema env0 specs0 (on_disk [(''rpre.done'', ''''), (''rpost.done'', '''')])
     = (False, on_disk [(''rpre.done'', ''''), (''rpost.done'', '''')]) \<and>
   copydb_target_finalize_schema env0 specs0 (on_disk [(''rpre.done'', ''''), (''rpost.done'', '''')])
     = (False, on_disk [(''rpre.done'', ''''), (''rpost.done'', '''')])"
  using restore_without_dump_file_fails_untouched
          [of "on_disk [(''rpre.done'', ''''), (''rpost.done'', '''')]" specs0 env0]
  by (simp add: file_exists_def on_disk_def specs0_def)

text \<open>
  C6. When a run of \<^verbatim>\<open>copydb_dump_source_schema\<close> records a failed \<^verbatim>\<open>pg_dump\<close> call,
  the run returns false, that call is the last one it made, and the tracking file of the
  section dumped does not exist afterwards. The same holds for a failed \<^verbatim>\<open>pg_restore\<close>
  call in \<^verbatim>\<open>copydb_target_prepare_schema\<close> and in
  \<^verbatim>\<open>copydb_target_finalize_schema\<close> (the list file not being the tracking file).
\<close>

theorem failed_tool_leaves_no_checkpoint:
  "(copydb_dump_source_schema e specs snapshot section w = (r, w') \<and>
    PgDump pguri snap label filename False \<in> set (new_events w w') \<longrightarrow>
      \<not> r \<and> last (trace w') = PgDump pguri snap label filename False \<and>
      (label = ''pre-data'' \<longrightarrow> \<not> file_exists w' (preDataDump (done_paths (cfPaths specs)))) \<and>
      (label = ''post-data'' \<longrightarrow> \<not> file_exists w' (postDataDump (done_paths (cfPaths specs))))) \<and>
   (copydb_target_prepare_schema e specs w = (r, w') \<and>
    PgRestore pguri dumpFilename listFile options False \<in> set (new_events w w') \<longrightarrow>
      \<not> r \<and> last (trace w') = PgRestore pguri dumpFilename listFile options False \<and>
      \<not> file_exists w' (preDataRestore (done_paths (cfPaths specs)))) \<and>
   (copydb_target_finalize_schema e specs w = (r, w') \<and>
    listFilename (dumpPaths specs) \<noteq> postDataRestore (done_paths (cfPaths specs)) \<and>
    PgRestore pguri dumpFilename listFile options False \<in> set (new_events w w') \<longrightarrow>
      \<not> r \<and> last (trace w') = PgRestore pguri dumpFilename listFile options False \<and>
      \<not> file_exists w' (postDataRestore (done_paths (cfPaths specs))))"
  using dump_failed [of e specs snapshot "section" w r w' pguri snap label filename]
    prepare_failed [of e specs w r w' pguri dumpFilename listFile options]
    finalize_failed [of e specs w r w' pguri dumpFilename listFile options]
  by blast

theorem failed_tool_witness:
  "copydb_dump_source_schema env_tools_fail specs0 ''snap'' PG_DUMP_SECTION_ALL disk_dumps_only =
     (False, \<lparr>files = files disk_dumps_only,
              trace = [PgDump ''source'' ''snap'' ''pre-data'' ''pre.dump'' False]\<rparr>) \<and>
   copydb_dump_source_schema env_tools_fail specs0 ''snap'' PG_DUMP_SECTION_POST_DATA
       disk_dumps_only =
     (False, \<lparr>files = files disk_dumps_only,
              trace = [PgDump ''source'' ''snap'' ''post-data'' ''post.dump'' False]\<rparr>) \<and>
   copydb_target_prepare_schema env_tools_fail specs0 disk_dumps_only =
     (False, \<lparr>files = files disk_dumps_only,
              trace = [PgRestore ''target'' ''pre.dump'' None '''' False]\<rparr>) \<and>
   copydb_target_finalize_schema env_tools_fail specs0 disk_dumps_only =
     (False, \<lparr>files = (files disk_dumps_only)(''post.list'' \<mapsto> ''''),
              trace = [PgRestoreList ''post.dump'' True, WriteFile ''post.list'' '''' True,
                       PgRestore ''target'' ''post.dump'' (Some ''post.list'') '''' False]\<rparr>) \<and>
   \<not> file_exists \<lparr>files = files disk_dumps_only,
        trace = [PgDump ''source'' ''snap'' ''pre-data'' ''pre.dump'' False]\<rparr> ''pre.done'' \<and>
   \<not> file_exists \<lparr>files = files disk_dumps_only,
        trace = [PgDump ''source'' ''snap'' ''post-data'' ''post.dump'' False]\<rparr> ''post.done'' \<and>
   \<not> file_exists \<lparr>files = files disk_dumps_only,
        trace = [PgRestore ''target'' ''pre.dump'' None '''' False]\<rparr> ''rpre.done'' \<and>
   \<not> file_exists \<lparr>files = (files disk_dumps_only)(''post.list'' \<mapsto> ''''),
        trace = [PgRestoreList ''post.dump'' True, WriteFile ''post.list'' '''' True,
                 PgRestore ''target'' ''post.dump'' (Some ''post.list'') '''' False]\<rparr>
     ''rpost.done''"
proof -
  have runs:
    "copydb_dump_source_schema env_tools_fail specs0 ''snap'' PG_DUMP_SECTION_ALL disk_dumps_only =
       (False, \<lparr>files = files disk_dumps_only,
                trace = [PgDump ''source'' ''snap'' ''pre-data'' ''pre.dump'' False]\<rparr>)"
    "copydb_dump_source_schema env_tools_fail specs0 ''snap'' PG_DUMP_SECTION_POST_DATA
         disk_dumps_only =
       (False, \<lparr>files = files disk_dumps_only,
                trace = [PgDump ''source'' ''snap'' ''post-data'' ''post.dump'' False]\<rparr>)"
    "copydb_target_prepare_schema env_tools_fail specs0 disk_dumps_only =
       (False, \<lparr>files = files disk_dumps_only,
                trace = [PgRestore ''target'' ''pre.dump'' None '''' False]\<rparr>)"
    "copydb_target_finalize_schema env_tools_fail specs0 disk_dumps_only =
       (False, \<lparr>files = (files disk_dumps_only)(''post.list'' \<mapsto> ''''),
                trace = [PgRestoreList ''post.dump'' True, WriteFile ''post.list'' '''' True,
                         PgRestore ''target'' ''post.dump'' (Some ''post.list'') '''' False]\<rparr>)"
    by (simp_all add: dump_defs restore_defs example_defs createPQExpBuffer_def
        finalize_loop.simps PQExpBufferBroken_def buffer_data_def)
  have empty_trace: "trace disk_dumps_only = []"
    by (simp add: disk_dumps_only_def on_disk_def)
  from failed_tool_leaves_no_checkpoint [of env_tools_fail specs0 "''snap''" PG_DUMP_SECTION_ALL
      disk_dumps_only False
      "\<lparr>files = files disk_dumps_only,
        trace = [PgDump ''source'' ''snap'' ''pre-data'' ''pre.dump'' False]\<rparr>"
      "''source''" "''snap''" "''pre-data''" "''pre.dump''"] runs(1)
  have pre: "\<not> file_exists \<lparr>files = files disk_dumps_only,
      trace = [PgDump ''source'' ''snap'' ''pre-data'' ''pre.dump'' False]\<rparr> ''pre.done''"
    by (simp add: new_events_def empty_trace specs0_paths)
  from failed_tool_leaves_no_checkpoint [of env_tools_fail specs0 "''snap''"
      PG_DUMP_SECTION_POST_DATA disk_dumps_only False
      "\<lparr>files = files disk_dumps_only,
        trace = [PgDump ''source'' ''snap'' ''post-data'' ''post.dump'' False]\<rparr>"
      "''source''" "''snap''" "''post-data''" "''post.dump''"] runs(2)
  have post: "\<not> file_exists \<lparr>files = files disk_dumps_only,
      trace = [PgDump ''source'' ''snap'' ''post-data'' ''post.dump'' False]\<rparr> ''post.done''"
    by (simp add: new_events_def empty_trace specs0_paths)
  from failed_tool_leaves_no_checkpoint [where e = env_tools_fail and specs = specs0
      and w = disk_dumps_only and r = False
      and w' = "\<lparr>files = files disk_dumps_only,
        trace = [PgRestore ''target'' ''pre.dump'' None '''' False]\<rparr>"
      and pguri = "''target''" and dumpFilename = "''pre.dump''" and listFile = None
      and options = "''''"] runs(3)
  have prepare: "\<not> file_exists \<lparr>files = files disk_dumps_only,
      trace = [PgRestore ''target'' ''pre.dump'' None '''' False]\<rparr> ''rpre.done''"
    by (simp add: new_events_def empty_trace specs0_paths)
  from failed_tool_leaves_no_checkpoint [where e = env_tools_fail and specs = specs0
      and w = disk_dumps_only and r = False
      and w' = "\<lparr>files = (files disk_dumps_only)(''post.list'' \<mapsto> ''''),
        trace = [PgRestoreList ''post.dump'' True, WriteFile ''post.list'' '''' True,
                 PgRestore ''target'' ''post.dump'' (Some ''post.list'') '''' False]\<rparr>"
      and pguri = "''target''" and dumpFilename = "''post.dump''"
      and listFile = "Some ''post.list''" and options = "''''"] runs(4)
  have finalize: "\<not> file_exists \<lparr>files = (files disk_dumps_only)(''post.list'' \<mapsto> ''''),
      trace = [PgRestoreList ''post.dump'' True, WriteFile ''post.list'' '''' True,
               PgRestore ''target'' ''post.dump'' (Some ''post.list'') '''' False]\<rparr>
      ''rpost.done''"
    by (simp add: new_events_def empty_trace specs0_paths)
  from runs pre post prepare finalize show ?thesis by (intro conjI)
qed

text \<open>
  C8. With section Schema or All, the calls of a run split into the calls of the pre-data
  sub-section followed by the calls of the post-data sub-section, the first part never
  empty. When a call of the pre-data part fails (its dump or the write of its tracking
  file), the run returns false and the post-data part is empty: no post-data dump, and no
  successful write of the post-data tracking file.
\<close>

theorem pre_data_before_post_data:
  assumes run: "copydb_dump_source_schema e specs snapshot section w = (r, w')"
    and both: "section = PG_DUMP_SECTION_SCHEMA \<or> section = PG_DUMP_SECTION_ALL"
  shows "\<exists>pre_evs post_evs.
     trace w' = trace w @ pre_evs @ post_evs \<and> pre_evs \<noteq> [] \<and>
     (\<forall>ev \<in> set pre_evs. pre_data_event specs ev) \<and>
     (\<forall>ev \<in> set post_evs. post_data_event specs ev) \<and>
     ((\<forall>ev \<in> set pre_evs. event_ok ev) \<longrightarrow> post_evs \<noteq> []) \<and>
     ((\<exists>ev \<in> set pre_evs. \<not> event_ok ev) \<longrightarrow>
        \<not> r \<and> post_evs = [] \<and>
        (\<forall>ev \<in> set (new_events w w'). \<not> (post_data_event specs ev \<and> event_ok ev)))"
proof -
  obtain r1 w1 where pre: "dump_pre_data e specs snapshot w = (r1, w1)"
    by (cases "dump_pre_data e specs snapshot w")
  note p = dump_pre_data_parts [OF pre]
  show ?thesis
  proof (cases r1)
    case False
    with run both pre have res: "r = False" "w' = w1"
      by (simp_all add: dump_both_sections)
    have c1: "trace w' = trace w @ new_events w w1 @ []"
      using p(1) res(2) by simp
    have c4: "\<forall>ev \<in> set []. post_data_event specs ev"
      by simp
    have not_all: "\<not> (\<forall>ev \<in> set (new_events w w1). event_ok ev)"
      using p(4) False by blast
    have c5: "(\<forall>ev \<in> set (new_events w w1). event_ok ev) \<longrightarrow> [] \<noteq> ([] :: event list)"
      using not_all by blast
    have no_post: "\<forall>ev \<in> set (new_events w w'). \<not> (post_data_event specs ev \<and> event_ok ev)"
      using p(5) False res(2) by blast
    have c6: "(\<exists>ev \<in> set (new_events w w1). \<not> event_ok ev) \<longrightarrow>
        \<not> r \<and> [] = ([] :: event list) \<and>
        (\<forall>ev \<in> set (new_events w w'). \<not> (post_data_event specs ev \<and> event_ok ev))"
      using res(1) no_post by blast
    from c1 p(2) p(3) c4 c5 c6 show ?thesis
      by (intro exI [of _ "new_events w w1"] exI [of _ "[]"] conjI)
  next
    case True
    with run both pre have post: "dump_post_data e specs snapshot w1 = (r, w')"
      by (simp add: dump_both_sections)
    note q = dump_post_data_parts [OF post]
    have c1: "trace w' = trace w @ new_events w w1 @ new_events w1 w'"
      using p(1) q(1) by simp
    have c5: "(\<forall>ev \<in> set (new_events w w1). event_ok ev) \<longrightarrow> new_events w1 w' \<noteq> []"
      using q(2) by blast
    have all_ok: "\<forall>ev \<in> set (new_events w w1). event_ok ev"
      using p(4) True by blast
    have c6: "(\<exists>ev \<in> set (new_events w w1). \<not> event_ok ev) \<longrightarrow>
        \<not> r \<and> new_events w1 w' = [] \<and>
        (\<forall>ev \<in> set (new_events w w'). \<not> (post_data_event specs ev \<and> event_ok ev))"
      using all_ok by blast
    from c1 p(2) p(3) q(3) c5 c6 show ?thesis
      by (intro exI [of _ "new_events w w1"] exI [of _ "new_events w1 w'"] conjI)
  qed
qed

theorem pre_data_before_post_data_witness:
  "copydb_dump_source_schema env_tools_fail specs0 ''snap'' PG_DUMP_SECTION_ALL (on_disk []) =
     (False, \<lparr>files = map_of [],
              trace = [PgDump ''source'' ''snap'' ''pre-data'' ''pre.dump'' False]\<rparr>) \<and>
   (\<exists>pre_evs post_evs.
      [PgDump ''source'' ''snap'' ''pre-data'' ''pre.dump'' False] = pre_evs @ post_evs \<and>
      pre_evs \<noteq> [] \<and> post_evs = []) \<and>
   copydb_dump_source_schema env0 specs0 ''snap'' PG_DUMP_SECTION_ALL (on_disk []) =
     (True, \<lparr>files = [''pre.dump'' \<mapsto> ''archive'', ''pre.done'' \<mapsto> '''',
                       ''post.dump'' \<mapsto> ''archive'', ''post.done'' \<mapsto> ''''],
             trace = [PgDump ''source'' ''snap'' ''pre-data'' ''pre.dump'' True,
                      WriteFile ''pre.done'' '''' True,
                      PgDump ''source'' ''snap'' ''post-data'' ''post.dump'' True,
                      WriteFile ''post.done'' '''' True]\<rparr>)"
proof -
  have failing:
    "copydb_dump_source_schema env_tools_fail specs0 ''snap'' PG_DUMP_SECTION_ALL (on_disk []) =
       (False, \<lparr>files = map_of [],
                trace = [PgDump ''source'' ''snap'' ''pre-data'' ''pre.dump'' False]\<rparr>)"
    by (simp add: dump_defs on_disk_def specs0_def env_tools_fail_def env0_def)
  have passing:
    "copydb_dump_source_schema env0 specs0 ''snap'' PG_DUMP_SECTION_ALL (on_disk []) =
       (True, \<lparr>files = [''pre.dump'' \<mapsto> ''archive'', ''pre.done'' \<mapsto> '''',
                         ''post.dump'' \<mapsto> ''archive'', ''post.done'' \<mapsto> ''''],
               trace = [PgDump ''source'' ''snap'' ''pre-data'' ''pre.dump'' True,
                        WriteFile ''pre.done'' '''' True,
                        PgDump ''source'' ''snap'' ''post-data'' ''post.dump'' True,
                        WriteFile ''post.done'' '''' True]\<rparr>)"
    by (simp add: dump_defs on_disk_def specs0_def env0_def)
  have all_section: "PG_DUMP_SECTION_ALL = PG_DUMP_SECTION_SCHEMA \<or>
      PG_DUMP_SECTION_ALL = PG_DUMP_SECTION_ALL"
    by simp
  from pre_data_before_post_data [OF failing all_section] obtain pre_evs post_evs where
    parts: "trace \<lparr>files = map_of [],
        trace = [PgDump ''source'' ''snap'' ''pre-data'' ''pre.dump'' False]\<rparr> =
      trace (on_disk []) @ pre_evs @ post_evs"
    and nonempty: "pre_evs \<noteq> []"
    by blast
  from parts have whole: "[PgDump ''source'' ''snap'' ''pre-data'' ''pre.dump'' False] =
      pre_evs @ post_evs"
    by (simp add: on_disk_def)
  with nonempty have "post_evs = []"
    by (cases pre_evs) simp_all
  with whole nonempty have "\<exists>pre_evs post_evs.
      [PgDump ''source'' ''snap'' ''pre-data'' ''pre.dump'' False] = pre_evs @ post_evs \<and>
      pre_evs \<noteq> [] \<and> post_evs = []"
    by blast
  with failing passing show ?thesis by (intro conjI)
qed

text \<open>
  C10. When the tracking file of a sub-section exists, \<^verbatim>\<open>copydb_dump_source_schema\<close>
  makes no dump for it and still calls \<^verbatim>\<open>write_file\<close> with the empty content on that
  tracking file: with a section of one sub-section this write is the only call of the run,
  the tracking file is the only file that changes, and the run returns what the write
  returned; with Schema or All a failed write of the pre-data tracking file ends the run
  with false, a successful one rewrites that file and is followed by the post-data
  sub-section, and a post-data sub-section whose tracking file exists, once the pre-data
  sub-section has succeeded, rewrites its tracking file and gives the run its result.
\<close>

theorem skipped_section_rewrites_marker:
  "(section = PG_DUMP_SECTION_PRE_DATA \<and>
    file_exists w (preDataDump (done_paths (cfPaths specs))) \<longrightarrow>
      copydb_dump_source_schema e specs snapshot section w =
        (write_file_ok e w [] (preDataDump (done_paths (cfPaths specs))),
         \<lparr>files = (if write_file_ok e w [] (preDataDump (done_paths (cfPaths specs)))
                   then (files w)(preDataDump (done_paths (cfPaths specs)) \<mapsto> [])
                   else files w),
          trace = trace w @
            [WriteFile (preDataDump (done_paths (cfPaths specs))) []
               (write_file_ok e w [] (preDataDump (done_paths (cfPaths specs))))]\<rparr>)) \<and>
   (section = PG_DUMP_SECTION_POST_DATA \<and>
    file_exists w (postDataDump (done_paths (cfPaths specs))) \<longrightarrow>
      copydb_dump_source_schema e specs snapshot section w =
        (write_file_ok e w [] (postDataDump (done_paths (cfPaths specs))),
         \<lparr>files = (if write_file_ok e w [] (postDataDump (done_paths (cfPaths specs)))
                   then (files w)(postDataDump (done_paths (cfPaths specs)) \<mapsto> [])
                   else files w),
          trace = trace w @
            [WriteFile (postDataDump (done_paths (cfPaths specs))) []
               (write_file_ok e w [] (postDataDump (done_paths (cfPaths specs))))]\<rparr>)) \<and>
   ((section = PG_DUMP_SECTION_SCHEMA \<or> section = PG_DUMP_SECTION_ALL) \<and>
    file_exists w (preDataDump (done_paths (cfPaths specs))) \<and>
    \<not> write_file_ok e w [] (preDataDump (done_paths (cfPaths specs))) \<longrightarrow>
      copydb_dump_source_schema e specs snapshot section w =
        (False,
         \<lparr>files = files w,
          trace = trace w @
            [WriteFile (preDataDump (done_paths (cfPaths specs))) [] False]\<rparr>)) \<and>
   ((section = PG_DUMP_SECTION_SCHEMA \<or> section = PG_DUMP_SECTION_ALL) \<and>
    dump_pre_data e specs snapshot w = (True, w1) \<and>
    file_exists w1 (postDataDump (done_paths (cfPaths specs))) \<longrightarrow>
      copydb_dump_source_schema e specs snapshot section w =
        (write_file_ok e w1 [] (postDataDump (done_paths (cfPaths specs))),
         \<lparr>files = (if write_file_ok e w1 [] (postDataDump (done_paths (cfPaths specs)))
                   then (files w1)(postDataDump (done_paths (cfPaths specs)) \<mapsto> [])
                   else files w1),
          trace = trace w1 @
            [WriteFile (postDataDump (done_paths (cfPaths specs))) []
               (write_file_ok e w1 [] (postDataDump (done_paths (cfPaths specs))))]\<rparr>)) \<and>
   ((section = PG_DUMP_SECTION_SCHEMA \<or> section = PG_DUMP_SECTION_ALL) \<and>
    file_exists w (preDataDump (done_paths (cfPaths specs))) \<and>
    write_file_ok e w [] (preDataDump (done_paths (cfPaths specs))) \<longrightarrow>
      copydb_dump_source_schema e specs snapshot section w =
        dump_post_data e specs snapshot
          \<lparr>files = (files w)(preDataDump (done_paths (cfPaths specs)) \<mapsto> []),
           trace = trace w @
             [WriteFile (preDataDump (done_paths (cfPaths specs))) [] True]\<rparr>)"
proof -
  have a: "section = PG_DUMP_SECTION_PRE_DATA \<and>
    file_exists w (preDataDump (done_paths (cfPaths specs))) \<longrightarrow>
      copydb_dump_source_schema e specs snapshot section w =
        (write_file_ok e w [] (preDataDump (done_paths (cfPaths specs))),
         \<lparr>files = (if write_file_ok e w [] (preDataDump (done_paths (cfPaths specs)))
                   then (files w)(preDataDump (done_paths (cfPaths specs)) \<mapsto> [])
                   else files w),
          trace = trace w @
            [WriteFile (preDataDump (done_paths (cfPaths specs))) []
               (write_file_ok e w [] (preDataDump (done_paths (cfPaths specs))))]\<rparr>)"
    by (simp add: dump_pre_section dump_pre_data_skip write_file_def)
  have b: "section = PG_DUMP_SECTION_POST_DATA \<and>
    file_exists w (postDataDump (done_paths (cfPaths specs))) \<longrightarrow>
      copydb_dump_source_schema e specs snapshot section w =
        (write_file_ok e w [] (postDataDump (done_paths (cfPaths specs))),
         \<lparr>files = (if write_file_ok e w [] (postDataDump (done_paths (cfPaths specs)))
                   then (files w)(postDataDump (done_paths (cfPaths specs)) \<mapsto> [])
                   else files w),
          trace = trace w @
            [WriteFile (postDataDump (done_paths (cfPaths specs))) []
               (write_file_ok e w [] (postDataDump (done_paths (cfPaths specs))))]\<rparr>)"
    by (simp add: dump_post_section dump_post_data_skip write_file_def)
  have c: "(section = PG_DUMP_SECTION_SCHEMA \<or> section = PG_DUMP_SECTION_ALL) \<and>
    file_exists w (preDataDump (done_paths (cfPaths specs))) \<and>
    \<not> write_file_ok e w [] (preDataDump (done_paths (cfPaths specs))) \<longrightarrow>
      copydb_dump_source_schema e specs snapshot section w =
        (False,
         \<lparr>files = files w,
          trace = trace w @
            [WriteFile (preDataDump (done_paths (cfPaths specs))) [] False]\<rparr>)"
    by (auto simp add: dump_both_sections dump_pre_data_skip write_file_def)
  have d: "(section = PG_DUMP_SECTION_SCHEMA \<or> section = PG_DUMP_SECTION_ALL) \<and>
    dump_pre_data e specs snapshot w = (True, w1) \<and>
    file_exists w1 (postDataDump (done_paths (cfPaths specs))) \<longrightarrow>
      copydb_dump_source_schema e specs snapshot section w =
        (write_file_ok e w1 [] (postDataDump (done_paths (cfPaths specs))),
         \<lparr>files = (if write_file_ok e w1 [] (postDataDump (done_paths (cfPaths specs)))
                   then (files w1)(postDataDump (done_paths (cfPaths specs)) \<mapsto> [])
                   else files w1),
          trace = trace w1 @
            [WriteFile (postDataDump (done_paths (cfPaths specs))) []
               (write_file_ok e w1 [] (postDataDump (done_paths (cfPaths specs))))]\<rparr>)"
    by (auto simp add: dump_both_sections dump_post_data_skip write_file_def)
  have e: "(section = PG_DUMP_SECTION_SCHEMA \<or> section = PG_DUMP_SECTION_ALL) \<and>
    file_exists w (preDataDump (done_paths (cfPaths specs))) \<and>
    write_file_ok e w [] (preDataDump (done_paths (cfPaths specs))) \<longrightarrow>
      copydb_dump_source_schema e specs snapshot section w =
        dump_post_data e specs snapshot
          \<lparr>files = (files w)(preDataDump (done_paths (cfPaths specs)) \<mapsto> []),
           trace = trace w @
             [WriteFile (preDataDump (done_paths (cfPaths specs))) [] True]\<rparr>"
    by (auto simp add: dump_both_sections dump_pre_data_skip write_file_def)
  from a b c d e show ?thesis by (intro conjI)
qed

theorem skipped_section_witness:
  "file_exists disk_all_done (preDataDump (done_paths (cfPaths specs0))) \<and>
   file_exists disk_all_done (postDataDump (done_paths (cfPaths specs0))) \<and>
   copydb_dump_source_schema env_write_fails specs0 ''snap'' PG_DUMP_SECTION_PRE_DATA disk_all_done =
     (False, \<lparr>files = files disk_all_done, trace = [WriteFile ''pre.done'' [] False]\<rparr>) \<and>
   copydb_dump_source_schema env_write_fails specs0 ''snap'' PG_DUMP_SECTION_POST_DATA disk_all_done =
     (False, \<lparr>files = files disk_all_done, trace = [WriteFile ''post.done'' [] False]\<rparr>) \<and>
   copydb_dump_source_schema env_write_fails specs0 ''snap'' PG_DUMP_SECTION_ALL disk_all_done =
     (False, \<lparr>files = files disk_all_done, trace = [WriteFile ''pre.done'' [] False]\<rparr>) \<and>
   copydb_dump_source_schema env0 specs0 ''snap'' PG_DUMP_SECTION_PRE_DATA disk_all_done =
     (True, \<lparr>files = (files disk_all_done)(''pre.done'' \<mapsto> []),
             trace = [WriteFile ''pre.done'' [] True]\<rparr>)"
proof -
  have there: "file_exists disk_all_done (preDataDump (done_paths (cfPaths specs0)))"
    "file_exists disk_all_done (postDataDump (done_paths (cfPaths specs0)))"
    by (simp_all add: specs0_paths file_exists_def disk_all_done_def on_disk_def)
  have writes: "\<not> write_file_ok env_write_fails w content path" "write_file_ok env0 w content path"
    for w content path
    by (simp_all add: env_write_fails_def env0_def)
  have empty_trace: "trace disk_all_done = []"
    by (simp add: disk_all_done_def on_disk_def)
  from skipped_section_rewrites_marker [of PG_DUMP_SECTION_PRE_DATA disk_all_done specs0
      env_write_fails "''snap''"]
    skipped_section_rewrites_marker [of PG_DUMP_SECTION_POST_DATA disk_all_done specs0
      env_write_fails "''snap''"]
    skipped_section_rewrites_marker [of PG_DUMP_SECTION_ALL disk_all_done specs0
      env_write_fails "''snap''"]
    skipped_section_rewrites_marker [of PG_DUMP_SECTION_PRE_DATA disk_all_done specs0
      env0 "''snap''"]
    there
  show ?thesis
    by (simp add: writes empty_trace specs0_paths)
qed

end
